theory Spec2Isabelle
  imports Complex_Main "HOL-Library.Monad_Syntax" "HOL-Library.AList"
begin

section \<open>JavaScript values\<close>

text \<open>
  A string is the list of its UTF-16 code units, each an integer from 0 to 65535, so that
  every character a spreadsheet can hold has its place; \<open>str\<close> turns a literal into
  such a list and \<open>code\<close> gives the code unit of one character.

  The cells of a raw row are untyped scalars: the CSV decoder is run with dynamic typing
  and hands over strings, numbers, booleans and \<open>null\<close>; a missing key reads as
  \<open>undefined\<close>. A finite number carries the exact rational value of its double; the
  sign of zero is not modelled.
\<close>

type_synonym jsstring = "int list"

definition code :: "char \<Rightarrow> int" where
  "code c = of_char c"

definition str :: "string \<Rightarrow> jsstring" where
  "str s = map code s"

datatype jsnum = NaN | PosInf | NegInf | Fin rat

datatype jsval = JUndefined | JNull | JBool bool | JNum jsnum | JStr jsstring

text \<open>\<open>!value\<close> is \<open>\<not> truthy value\<close>.\<close>

fun truthy :: "jsval \<Rightarrow> bool" where
  "truthy JUndefined = False"
| "truthy JNull = False"
| "truthy (JBool b) = b"
| "truthy (JNum n) = (n \<noteq> NaN \<and> n \<noteq> Fin 0)"
| "truthy (JStr s) = (s \<noteq> [])"

text \<open>\<open>a === b\<close>: same type and same value, and \<open>NaN\<close> differs from itself.\<close>

definition strict_eq :: "jsval \<Rightarrow> jsval \<Rightarrow> bool" where
  "strict_eq a b = (a = b \<and> a \<noteq> JNum NaN)"

text \<open>\<open>a || b\<close> on values.\<close>

definition js_or :: "jsval \<Rightarrow> jsval \<Rightarrow> jsval" where
  "js_or a b = (if truthy a then a else b)"

text \<open>
  Five functions of the runtime are taken as parameters, since their results are fixed by
  the platform and not by this program:
  \<^item> the digits a number prints with;
  \<^item> the implementation-defined date parser behind \<open>new Date(string)\<close>, which gives
    the time value in milliseconds since the epoch, or \<open>None\<close> for an invalid date;
  \<^item> the Unicode case conversions, which the model asks only about strings that hold a
    code unit outside ASCII (on ASCII text the language fixes the result, see
    \<open>toLowerCase\<close> below);
  \<^item> the rounding of an exact value to the nearest double, which gives an infinity on
    overflow.
\<close>

record platform =
  Number_toString :: "jsnum \<Rightarrow> jsstring"
  Date_parse :: "jsstring \<Rightarrow> int option"
  String_toLowerCase :: "jsstring \<Rightarrow> jsstring"
  String_toUpperCase :: "jsstring \<Rightarrow> jsstring"
  To_double :: "rat \<Rightarrow> jsnum"

text \<open>The abstract conversion \<open>String(v)\<close>, which never throws on a scalar.\<close>

fun ToString :: "platform \<Rightarrow> jsval \<Rightarrow> jsstring" where
  "ToString pf JUndefined = str ''undefined''"
| "ToString pf JNull = str ''null''"
| "ToString pf (JBool b) = (if b then str ''true'' else str ''false'')"
| "ToString pf (JNum n) = Number_toString pf n"
| "ToString pf (JStr s) = s"

text \<open>
  The method call \<open>v.toString()\<close>: a TypeError on \<open>undefined\<close> and \<open>null\<close>
  (the value \<open>None\<close>), the string of the value otherwise.
\<close>

fun toString :: "platform \<Rightarrow> jsval \<Rightarrow> jsstring option" where
  "toString pf JUndefined = None"
| "toString pf JNull = None"
| "toString pf v = Some (ToString pf v)"

section \<open>Strings\<close>

text \<open>
  White space as \<open>trim\<close>, the class \<open>\s\<close> of a regular expression, \<open>parseInt\<close>
  and \<open>parseFloat\<close> read it: tab, line feed, vertical tab, form feed, carriage return,
  space, no-break space (U+00A0), U+1680, U+2000 to U+200A, the line and paragraph
  separators U+2028 and U+2029, U+202F, U+205F, U+3000 and the byte order mark U+FEFF.
\<close>

definition is_ws :: "int \<Rightarrow> bool" where
  "is_ws c = (c \<in> set [0x09, 0x0A, 0x0B, 0x0C, 0x0D, 0x20, 0xA0, 0x1680,
                         0x2000, 0x2001, 0x2002, 0x2003, 0x2004, 0x2005, 0x2006, 0x2007,
                         0x2008, 0x2009, 0x200A, 0x2028, 0x2029, 0x202F, 0x205F, 0x3000,
                         0xFEFF])"

definition trimStart :: "jsstring \<Rightarrow> jsstring" where
  "trimStart s = dropWhile is_ws s"

definition trim :: "jsstring \<Rightarrow> jsstring" where
  "trim s = rev (dropWhile is_ws (rev (dropWhile is_ws s)))"

definition is_ascii :: "int \<Rightarrow> bool" where
  "is_ascii c = (0 \<le> c \<and> c < 128)"

definition ascii_lower :: "int \<Rightarrow> int" where
  "ascii_lower c = (if code (CHR ''A'') \<le> c \<and> c \<le> code (CHR ''Z'') then c + 32 else c)"

definition ascii_upper :: "int \<Rightarrow> int" where
  "ascii_upper c = (if code (CHR ''a'') \<le> c \<and> c \<le> code (CHR ''z'') then c - 32 else c)"

text \<open>
  \<open>s.toLowerCase()\<close> and \<open>s.toUpperCase()\<close>. On a string of ASCII code units the
  result is the string with its ASCII letters converted, whatever the platform. A string
  with any other code unit is converted by the platform's Unicode tables, which may
  change its length and may turn a character outside ASCII into an ASCII letter (the
  dotless i, U+0131, has the upper case \<open>I\<close>).
\<close>

definition toLowerCase :: "platform \<Rightarrow> jsstring \<Rightarrow> jsstring" where
  "toLowerCase pf s =
     (if list_all is_ascii s then map ascii_lower s else String_toLowerCase pf s)"

definition toUpperCase :: "platform \<Rightarrow> jsstring \<Rightarrow> jsstring" where
  "toUpperCase pf s =
     (if list_all is_ascii s then map ascii_upper s else String_toUpperCase pf s)"

definition startsWith :: "jsstring \<Rightarrow> jsstring \<Rightarrow> bool" where
  "startsWith s p = (take (length p) s = p)"

text \<open>\<open>s.includes(sub)\<close>: \<open>sub\<close> occurs in \<open>s\<close> as a contiguous run.\<close>

fun str_includes :: "jsstring \<Rightarrow> jsstring \<Rightarrow> bool" where
  "str_includes [] sub = (sub = [])"
| "str_includes (c # cs) sub = (startsWith (c # cs) sub \<or> str_includes cs sub)"

section \<open>Numbers\<close>

definition is_digit :: "int \<Rightarrow> bool" where
  "is_digit c = (code (CHR ''0'') \<le> c \<and> c \<le> code (CHR ''9''))"

definition is_hex_digit :: "int \<Rightarrow> bool" where
  "is_hex_digit c =
     (is_digit c \<or> code (CHR ''a'') \<le> c \<and> c \<le> code (CHR ''f'')
                \<or> code (CHR ''A'') \<le> c \<and> c \<le> code (CHR ''F''))"

definition digit_val :: "int \<Rightarrow> nat" where
  "digit_val c =
     (if is_digit c then nat (c - code (CHR ''0''))
      else if code (CHR ''a'') \<le> c \<and> c \<le> code (CHR ''f'') then nat (c - code (CHR ''a'') + 10)
      else nat (c - code (CHR ''A'') + 10))"

definition nat_of_digits :: "nat \<Rightarrow> jsstring \<Rightarrow> nat" where
  "nat_of_digits radix ds = foldl (\<lambda>acc c. acc * radix + digit_val c) 0 ds"

text \<open>
  \<open>parseInt(string)\<close> without a radix: leading white space and a sign are skipped, the
  prefix \<open>0x\<close> selects base 16, and the longest run of digits is read; no digit at all
  is \<open>NaN\<close>, here \<open>None\<close>. The result is the exact integer: its rounding to a double,
  which matters from 2^53 on, is not modelled.
\<close>

definition parseInt_str :: "jsstring \<Rightarrow> int option" where
  "parseInt_str input =
     (let s = trimStart input;
          neg = startsWith s (str ''-'');
          s1 = (if startsWith s (str ''+'') \<or> startsWith s (str ''-'') then tl s else s);
          hex = (startsWith s1 (str ''0x'') \<or> startsWith s1 (str ''0X''));
          s2 = (if hex then drop 2 s1 else s1);
          ds = takeWhile (if hex then is_hex_digit else is_digit) s2
      in if ds = [] then None
         else Some ((if neg then - 1 else 1) * int (nat_of_digits (if hex then 16 else 10) ds)))"

definition parseInt :: "platform \<Rightarrow> jsval \<Rightarrow> int option" where
  "parseInt pf v = parseInt_str (ToString pf v)"

text \<open>\<open>parseInt(x) || 0\<close>: \<open>NaN\<close> and \<open>0\<close> are both falsy.\<close>

definition parseInt_or_0 :: "platform \<Rightarrow> jsval \<Rightarrow> int" where
  "parseInt_or_0 pf v = (case parseInt pf v of None \<Rightarrow> 0 | Some n \<Rightarrow> n)"

text \<open>
  \<open>parseFloat(string)\<close>: leading white space is skipped and the longest prefix that is
  a decimal literal is read: a sign, then \<open>Infinity\<close>, or digits with an optional
  fraction and an optional exponent. A prefix with no digit is \<open>NaN\<close>. The value of
  the literal is rounded to a double by the platform, so that \<open>1e400\<close> reads as
  \<open>Infinity\<close>.
\<close>

definition exponent_part :: "jsstring \<Rightarrow> int" where
  "exponent_part r =
     (if startsWith r (str ''e'') \<or> startsWith r (str ''E'') then
        (let es = tl r;
             eneg = startsWith es (str ''-'');
             es1 = (if startsWith es (str ''+'') \<or> startsWith es (str ''-'') then tl es else es);
             eds = takeWhile is_digit es1
         in if eds = [] then 0
            else (if eneg then - 1 else 1) * int (nat_of_digits 10 eds))
      else 0)"

definition pow10 :: "int \<Rightarrow> rat" where
  "pow10 e = (if 0 \<le> e then 10 ^ nat e else 1 / 10 ^ nat (- e))"

definition parseFloat_str :: "platform \<Rightarrow> jsstring \<Rightarrow> jsnum" where
  "parseFloat_str pf input =
     (let s = trimStart input;
          neg = startsWith s (str ''-'');
          s1 = (if startsWith s (str ''+'') \<or> startsWith s (str ''-'') then tl s else s)
      in if startsWith s1 (str ''Infinity'') then (if neg then NegInf else PosInf)
         else
           (let ip = takeWhile is_digit s1;
                r1 = dropWhile is_digit s1;
                dot = startsWith r1 (str ''.'');
                fp = (if dot then takeWhile is_digit (tl r1) else []);
                r2 = (if dot then dropWhile is_digit (tl r1) else r1)
            in if ip = [] \<and> fp = [] then NaN
               else To_double pf ((if neg then - 1 else 1)
                                  * (of_nat (nat_of_digits 10 (ip @ fp)) / 10 ^ length fp)
                                  * pow10 (exponent_part r2))))"

text \<open>
  Division and multiplication by a finite factor, each rounded to a double, and
  \<open>Math.round\<close>, which is exact.
\<close>

definition js_div :: "platform \<Rightarrow> jsnum \<Rightarrow> jsnum \<Rightarrow> jsnum" where
  "js_div pf x y =
     (case (x, y) of
        (NaN, _) \<Rightarrow> NaN
      | (_, NaN) \<Rightarrow> NaN
      | (Fin a, Fin b) \<Rightarrow>
          (if b = 0 then (if a = 0 then NaN else if 0 < a then PosInf else NegInf)
           else To_double pf (a / b))
      | (Fin a, _) \<Rightarrow> Fin 0
      | (PosInf, Fin b) \<Rightarrow> (if 0 \<le> b then PosInf else NegInf)
      | (NegInf, Fin b) \<Rightarrow> (if 0 \<le> b then NegInf else PosInf)
      | _ \<Rightarrow> NaN)"

fun js_times :: "platform \<Rightarrow> jsnum \<Rightarrow> rat \<Rightarrow> jsnum" where
  "js_times pf (Fin a) k = To_double pf (a * k)"
| "js_times pf NaN k = NaN"
| "js_times pf PosInf k = (if k = 0 then NaN else if 0 < k then PosInf else NegInf)"
| "js_times pf NegInf k = (if k = 0 then NaN else if 0 < k then NegInf else PosInf)"

fun Math_round :: "jsnum \<Rightarrow> jsnum" where
  "Math_round (Fin a) = Fin (of_int \<lfloor>a + 1 / 2\<rfloor>)"
| "Math_round n = n"

text \<open>\<open>n < 0\<close> on numbers.\<close>

definition is_negative :: "jsnum \<Rightarrow> bool" where
  "is_negative n = (case n of Fin r \<Rightarrow> r < 0 | NegInf \<Rightarrow> True | _ \<Rightarrow> False)"

text \<open>\<open>n > 0\<close> on numbers.\<close>

definition is_positive :: "jsnum \<Rightarrow> bool" where
  "is_positive n = (case n of Fin r \<Rightarrow> 0 < r | PosInf \<Rightarrow> True | _ \<Rightarrow> False)"

text \<open>
  What the rounding to the nearest double is known to do, whatever the platform: it
  never gives \<open>NaN\<close>; it gives a negative number only for a negative value and a
  positive number only for a positive value; it keeps
  a value between two integers of magnitude up to 2^53 between them; and it leaves
  alone a value \<open>m * 2^e\<close> with \<open>m\<close> below 2^53 in magnitude and \<open>e\<close> from
  \<open>-1074\<close> to 971, which is a double already.
\<close>

definition pow2 :: "int \<Rightarrow> rat" where
  "pow2 e = (if 0 \<le> e then 2 ^ nat e else 1 / 2 ^ nat (- e))"

definition rounds_to_nearest :: "platform \<Rightarrow> bool" where
  "rounds_to_nearest pf =
     ((\<forall>r. To_double pf r \<noteq> NaN) \<and>
      (\<forall>r. is_negative (To_double pf r) \<longrightarrow> r < 0) \<and>
      (\<forall>r. is_positive (To_double pf r) \<longrightarrow> 0 < r) \<and>
      (\<forall>r a b. \<bar>a\<bar> \<le> 2 ^ 53 \<and> \<bar>b\<bar> \<le> 2 ^ 53 \<and> of_int a \<le> r \<and> r \<le> of_int b \<longrightarrow>
         (\<exists>x. To_double pf r = Fin x \<and> of_int a \<le> x \<and> x \<le> of_int b)) \<and>
      (\<forall>m e. \<bar>m\<bar> < 2 ^ 53 \<and> - 1074 \<le> e \<and> e \<le> 971 \<longrightarrow>
         To_double pf (of_int m * pow2 e) = Fin (of_int m * pow2 e)))"

text \<open>Decimal digits of a natural number, and zero padding to a width.\<close>

fun dec_digits :: "nat \<Rightarrow> jsstring" where
  "dec_digits n =
     (if n < 10 then [code (CHR ''0'') + int n]
      else dec_digits (n div 10) @ [code (CHR ''0'') + int (n mod 10)])"

declare dec_digits.simps [simp del]

definition pad :: "nat \<Rightarrow> nat \<Rightarrow> jsstring" where
  "pad w n = replicate (w - length (dec_digits n)) (code (CHR ''0'')) @ dec_digits n"

section \<open>Dates\<close>

text \<open>
  The calendar date (year, month, day) of a day number counted from 1970-01-01, in the
  proleptic Gregorian calendar that the time values of the language use.
\<close>

definition civil_from_days :: "int \<Rightarrow> int \<times> int \<times> int" where
  "civil_from_days z0 =
     (let z = z0 + 719468;
          era = z div 146097;
          doe = z mod 146097;
          yoe = (doe - doe div 1460 + doe div 36524 - doe div 146096) div 365;
          y = yoe + era * 400;
          doy = doe - (365 * yoe + yoe div 4 - yoe div 100);
          mp = (5 * doy + 2) div 153;
          d = doy - (153 * mp + 2) div 5 + 1;
          m = (if mp < 10 then mp + 3 else mp - 9)
      in (if m \<le> 2 then y + 1 else y, m, d))"

definition days_from_civil :: "int \<Rightarrow> int \<Rightarrow> int \<Rightarrow> int" where
  "days_from_civil y0 m d =
     (let y = (if m \<le> 2 then y0 - 1 else y0);
          era = y div 400;
          yoe = y mod 400;
          doy = (153 * (if 2 < m then m - 3 else m + 9) + 2) div 5 + d - 1;
          doe = yoe * 365 + yoe div 4 - yoe div 100 + doy
      in era * 146097 + doe - 719468)"

definition msPerDay :: int where
  "msPerDay = 86400000"

text \<open>
  \<open>date.toISOString()\<close> of a valid time value: \<open>YYYY-MM-DDTHH:mm:ss.sssZ\<close>, the year
  with four digits from 0 to 9999 and with a sign and six digits outside.
\<close>

definition iso_year :: "int \<Rightarrow> jsstring" where
  "iso_year y =
     (if 0 \<le> y \<and> y \<le> 9999 then pad 4 (nat y)
      else (if y < 0 then str ''-'' else str ''+'') @ pad 6 (nat \<bar>y\<bar>))"

definition toISOString :: "int \<Rightarrow> jsstring" where
  "toISOString t =
     (case civil_from_days (t div msPerDay) of (y, m, d) \<Rightarrow>
        (let ms = t mod msPerDay in
         iso_year y @ str ''-'' @ pad 2 (nat m) @ str ''-'' @ pad 2 (nat d) @ str ''T''
         @ pad 2 (nat (ms div 3600000)) @ str '':'' @ pad 2 (nat ((ms div 60000) mod 60))
         @ str '':'' @ pad 2 (nat ((ms div 1000) mod 60)) @ str ''.''
         @ pad 3 (nat (ms mod 1000)) @ str ''Z''))"

text \<open>
  \<open>new Date(v).getTime()\<close>, with \<open>None\<close> for the invalid date: a string goes through
  the platform's parser, a number is a time value when it lies within 8.64e15 milliseconds
  of the epoch and is cut to an integer.
\<close>

fun newDate :: "platform \<Rightarrow> jsval \<Rightarrow> int option" where
  "newDate pf (JStr s) = Date_parse pf s"
| "newDate pf (JNum (Fin r)) =
     (if 8640000000000000 < \<bar>r\<bar> then None
      else Some (if 0 \<le> r then \<lfloor>r\<rfloor> else \<lceil>r\<rceil>))"
| "newDate pf (JNum n) = None"
| "newDate pf (JBool b) = Some (if b then 1 else 0)"
| "newDate pf JNull = Some 0"
| "newDate pf JUndefined = None"

section \<open>A reference platform\<close>

text \<open>
  For running the model on concrete inputs. Numbers print as the decimal digits of their
  integer part, which is what the language prints for an integer below 10^21 in
  magnitude. The date parser reads the date-only form \<open>YYYY-MM-DD\<close> of the standard
  date-time format as midnight UTC and rejects every other string. The case conversions
  convert the ASCII letters only, and the rounding to a double keeps every value as it
  is. The reference platform is applied to ASCII text, integers, date-only strings and
  values that are doubles, where it agrees with the language.
\<close>

definition Number_toString_int :: "jsnum \<Rightarrow> jsstring" where
  "Number_toString_int n =
     (case n of NaN \<Rightarrow> str ''NaN'' | PosInf \<Rightarrow> str ''Infinity''
      | NegInf \<Rightarrow> str ''-Infinity''
      | Fin r \<Rightarrow> (if r < 0 then str ''-'' else []) @ dec_digits (nat \<lfloor>\<bar>r\<bar>\<rfloor>))"

definition days_in_month :: "int \<Rightarrow> int \<Rightarrow> int" where
  "days_in_month y m =
     (if m = 2 then (if y mod 4 = 0 \<and> (y mod 100 \<noteq> 0 \<or> y mod 400 = 0) then 29 else 28)
      else if m = 4 \<or> m = 6 \<or> m = 9 \<or> m = 11 then 30 else 31)"

definition Date_parse_iso :: "jsstring \<Rightarrow> int option" where
  "Date_parse_iso s =
     (if length s = 10 \<and> s ! 4 = code (CHR ''-'') \<and> s ! 7 = code (CHR ''-'')
         \<and> list_all is_digit (take 4 s) \<and> list_all is_digit (take 2 (drop 5 s))
         \<and> list_all is_digit (drop 8 s)
      then (let y = int (nat_of_digits 10 (take 4 s));
                m = int (nat_of_digits 10 (take 2 (drop 5 s)));
                d = int (nat_of_digits 10 (drop 8 s))
            in if 1 \<le> m \<and> m \<le> 12 \<and> 1 \<le> d \<and> d \<le> days_in_month y m
               then Some (days_from_civil y m d * msPerDay) else None)
      else None)"

definition ref_platform :: platform where
  "ref_platform =
     \<lparr> Number_toString = Number_toString_int, Date_parse = Date_parse_iso,
       String_toLowerCase = map ascii_lower, String_toUpperCase = map ascii_upper,
       To_double = Fin \<rparr>"

section \<open>Objects\<close>

text \<open>
  An object is the list of its own properties in insertion order. Reading a missing
  property gives \<open>undefined\<close>. Assigning a scalar to \<open>__proto__\<close> goes to the setter
  inherited from \<open>Object.prototype\<close>, which creates no own property.
\<close>

type_synonym obj = "(jsstring \<times> jsval) list"

definition get_prop :: "obj \<Rightarrow> jsstring \<Rightarrow> jsval" where
  "get_prop ob k = (case map_of ob k of None \<Rightarrow> JUndefined | Some v \<Rightarrow> v)"

definition set_prop :: "obj \<Rightarrow> jsstring \<Rightarrow> jsval \<Rightarrow> obj" where
  "set_prop ob k v = (if k = str ''__proto__'' then ob else AList.update k v ob)"

text \<open>
  The names every plain object inherits from \<open>Object.prototype\<close>. Each of them reads
  as a function or an object, hence truthy, on an object with no own property of the name.
\<close>

definition Object_prototype_names :: "jsstring list" where
  "Object_prototype_names =
     map str
       [''constructor'', ''__defineGetter__'', ''__defineSetter__'', ''hasOwnProperty'',
        ''__lookupGetter__'', ''__lookupSetter__'', ''isPrototypeOf'',
        ''propertyIsEnumerable'', ''toString'', ''valueOf'', ''__proto__'',
        ''toLocaleString'']"

section \<open>The column mapper: support status, lenient scheme\<close>

text \<open>
  \<open>normalizeSupport\<close> of the column mapper. The active vocabulary is tested first, the
  expired vocabulary second, and a value matching neither is returned as it came.
\<close>

definition normalizeSupport :: "platform \<Rightarrow> jsval \<Rightarrow> jsval option" where
  "normalizeSupport pf v =
     (if \<not> truthy v \<or> strict_eq v (JStr (str ''-'')) \<or> strict_eq v (JStr (str ''N/A''))
          \<or> strict_eq v (JStr (str ''n/a''))
      then Some (JStr (str ''-''))
      else do {
        s \<leftarrow> toString pf v;
        let lowerValue = trim (toLowerCase pf s) in
        if str_includes lowerValue (str ''covered'') \<or>
           str_includes lowerValue (str ''active'') \<or>
           str_includes lowerValue (str ''yes'') \<or>
           str_includes lowerValue (str ''valid'') \<or>
           str_includes lowerValue (str ''current'') \<or>
           str_includes lowerValue (str ''maintenance'') \<or>
           lowerValue = str ''y'' \<or>
           lowerValue = str ''1'' \<or>
           lowerValue = str ''true''
        then Some (JStr (str ''Active''))
        else if str_includes lowerValue (str ''not covered'') \<or>
           str_includes lowerValue (str ''no coverage'') \<or>
           str_includes lowerValue (str ''expired'') \<or>
           str_includes lowerValue (str ''none'') \<or>
           str_includes lowerValue (str ''no'') \<or>
           lowerValue = str ''n'' \<or>
           lowerValue = str ''0'' \<or>
           lowerValue = str ''false''
        then Some (JStr (str ''Expired''))
        else Some v
      })"

section \<open>The column mapper: dates, numbers, rows\<close>

text \<open>
  \<open>formatDate\<close>: a falsy value and the three placeholder strings give the sentinel; a
  value that \<open>new Date\<close> accepts gives the part of its ISO string before \<open>T\<close>; any
  other value is returned as it came.
\<close>

definition formatDate :: "platform \<Rightarrow> jsval \<Rightarrow> jsval" where
  "formatDate pf v =
     (if \<not> truthy v \<or> strict_eq v (JStr (str ''-'')) \<or> strict_eq v (JStr (str ''N/A''))
          \<or> strict_eq v (JStr (str ''n/a''))
      then JStr (str ''-'')
      else case newDate pf v of
             None \<Rightarrow> v
           | Some t \<Rightarrow> JStr (takeWhile (\<lambda>c. c \<noteq> code (CHR ''T'')) (toISOString t)))"

text \<open>
  \<open>normalizeNumber\<close>: the same sentinels give 0; otherwise every \<open>$\<close> and \<open>,\<close> is
  removed (\<open>replace(/[$,]/g, '')\<close>), the rest is trimmed and read by \<open>parseFloat\<close>,
  and \<open>NaN\<close> becomes 0.
\<close>

definition remove_currency :: "jsstring \<Rightarrow> jsstring" where
  "remove_currency s = filter (\<lambda>c. c \<noteq> code (CHR ''$'') \<and> c \<noteq> code (CHR '','')) s"

definition normalizeNumber :: "platform \<Rightarrow> jsval \<Rightarrow> jsval option" where
  "normalizeNumber pf v =
     (if \<not> truthy v \<or> strict_eq v (JStr (str ''-'')) \<or> strict_eq v (JStr (str ''N/A''))
          \<or> strict_eq v (JStr (str ''n/a''))
      then Some (JNum (Fin 0))
      else do {
        s \<leftarrow> toString pf v;
        let cleanValue = trim (remove_currency s);
            number = parseFloat_str pf cleanValue in
        Some (JNum (if number = NaN then Fin 0 else number))
      })"

definition COLUMN_MAPPINGS :: "(jsstring \<times> jsstring list) list" where
  "COLUMN_MAPPINGS =
     map (\<lambda>(standardName, variations). (str standardName, map str variations))
     [(''mfg'', [''mfg'', ''manufacturer'', ''vendor'', ''supplier'', ''make'', ''brand'']),
      (''category'', [''category'', ''business entity'', ''business_entity'', ''businessentity'',
         ''bus_entity'', ''product category'', ''product_category'']),
      (''asset_type'', [''asset type'', ''asset_type'', ''assettype'', ''type of asset'',
         ''equipment type'', ''equipment_type'']),
      (''type'', [''type'', ''product type'', ''product_type'', ''model type'', ''model_type'']),
      (''product_id'', [''product id'', ''product_id'', ''productid'', ''pid'', ''product number'',
         ''product_number'', ''part number'', ''part_number'', ''sku'']),
      (''description'', [''description'', ''product description'', ''product_description'',
         ''productdescription'', ''desc'', ''details'', ''product details'']),
      (''ship_date'', [''ship date'', ''ship_date'', ''shipdate'', ''ship dt'', ''ship_dt'',
         ''shipped date'', ''shipped_date'', ''date shipped'', ''date_shipped'']),
      (''qty'', [''qty'', ''quantity'', ''count'', ''amount'', ''units'', ''total qty'',
         ''total_qty'']),
      (''total_value'', [''total value'', ''total_value'', ''totalvalue'', ''value'', ''cost'',
         ''price'', ''total cost'', ''total_cost'', ''total price'', ''total_price'',
         ''extended price'', ''extended_price'']),
      (''support_coverage'', [''support coverage'', ''support_coverage'', ''supportcoverage'',
         ''coverage'', ''maintenance'', ''support status'', ''support_status'',
         ''maintenance status'', ''maintenance_status'', ''covered'']),
      (''end_of_sale'', [''end of sale'', ''end_of_sale'', ''endofsale'', ''end of product sale'',
         ''end_of_product_sale'', ''eos'', ''sale end date'', ''sale_end_date'',
         ''discontinued date'', ''discontinued_date'']),
      (''last_day_support'', [''last day support'', ''last_day_support'', ''lastdaysupport'',
         ''last support'', ''last_support'', ''last date of support'', ''last_date_of_support'',
         ''end of support'', ''end_of_support'', ''support end date'', ''support_end_date'',
         ''eosl''])]"

text \<open>
  The inner loop over the table: the first standard name one of whose variations equals
  the lowered key.
\<close>

definition find_mapping :: "jsstring \<Rightarrow> jsstring option" where
  "find_mapping lowerKey =
     map_option fst
       (find (\<lambda>(standardName, variations). list_ex (\<lambda>variation. variation = lowerKey) variations)
          COLUMN_MAPPINGS)"

text \<open>\<open>replace(/\s+/g, '_')\<close>: every maximal run of white space becomes one underscore.\<close>

function replace_ws_runs :: "jsstring \<Rightarrow> jsstring" where
  "replace_ws_runs [] = []"
| "replace_ws_runs (c # cs) =
     (if is_ws c then code (CHR ''_'') # replace_ws_runs (dropWhile is_ws cs)
      else c # replace_ws_runs cs)"
  by pat_completeness auto
termination
  by (relation "measure length") (auto simp: less_Suc_eq_le length_dropWhile_le)

definition is_key_char :: "int \<Rightarrow> bool" where
  "is_key_char c =
     (code (CHR ''a'') \<le> c \<and> c \<le> code (CHR ''z'') \<or>
      code (CHR ''0'') \<le> c \<and> c \<le> code (CHR ''9'') \<or> c = code (CHR ''_''))"

definition cleanKey :: "jsstring \<Rightarrow> jsstring" where
  "cleanKey lowerKey = filter is_key_char (replace_ws_runs lowerKey)"

text \<open>
  The property name that the loop body stores a cell under: the standard name of the first
  mapping that lists the lowered, trimmed header, or else the cleaned header.
\<close>

definition resolve_key :: "platform \<Rightarrow> jsstring \<Rightarrow> jsstring" where
  "resolve_key pf originalKey =
     (let lowerKey = trim (toLowerCase pf originalKey) in
      case find_mapping lowerKey of
        Some standardName \<Rightarrow> standardName
      | None \<Rightarrow> cleanKey lowerKey)"

text \<open>The body of the loop over the keys of the row.\<close>

definition map_key :: "platform \<Rightarrow> obj \<Rightarrow> obj \<Rightarrow> jsstring \<Rightarrow> obj" where
  "map_key pf row normalized originalKey =
     (let lowerKey = trim (toLowerCase pf originalKey) in
      case find_mapping lowerKey of
        Some standardName \<Rightarrow> set_prop normalized standardName (get_prop row originalKey)
      | None \<Rightarrow> set_prop normalized (cleanKey lowerKey) (get_prop row originalKey))"

text \<open>
  A raw row is an object with scalar cells, its properties listed in the order in which
  \<open>Object.keys\<close> enumerates them, or it is \<open>null\<close> or \<open>undefined\<close>, on which
  \<open>Object.keys\<close> throws a TypeError. \<open>normalizeRow\<close> gives \<open>None\<close> when it throws.
\<close>

datatype rawrow = NullRow | Row obj

text \<open>The loop over the keys of the row, which builds the object \<open>normalized\<close>.\<close>

definition map_keys :: "platform \<Rightarrow> obj \<Rightarrow> obj" where
  "map_keys pf row = foldl (map_key pf row) [] (map fst row)"

text \<open>
  The cell that the specification maps to a field, for comparison with what the loop
  leaves under the field: the cell of the last header of the row, in key order, that
  resolves to the field, and \<open>undefined\<close> when no header does.
\<close>

definition spec_mapped_cell :: "platform \<Rightarrow> obj \<Rightarrow> jsstring \<Rightarrow> jsval" where
  "spec_mapped_cell pf row field =
     (case find (\<lambda>originalKey. resolve_key pf originalKey = field) (rev (map fst row)) of
        None \<Rightarrow> JUndefined
      | Some originalKey \<Rightarrow> get_prop row originalKey)"

definition normalizeRow :: "platform \<Rightarrow> rawrow \<Rightarrow> obj option" where
  "normalizeRow pf r =
     (case r of
        NullRow \<Rightarrow> None
      | Row row \<Rightarrow> do {
          let n0 = map_keys pf row;
          support \<leftarrow> normalizeSupport pf (get_prop n0 (str ''support_coverage''));
          let n1 = set_prop n0 (str ''support_coverage'') support;
          let n2 = set_prop n1 (str ''ship_date'')
                     (formatDate pf (get_prop n1 (str ''ship_date'')));
          let n3 = set_prop n2 (str ''end_of_sale'')
                     (formatDate pf (get_prop n2 (str ''end_of_sale'')));
          let n4 = set_prop n3 (str ''last_day_support'')
                     (formatDate pf (get_prop n3 (str ''last_day_support'')));
          qty \<leftarrow> normalizeNumber pf (get_prop n4 (str ''qty''));
          let n5 = set_prop n4 (str ''qty'') qty;
          total \<leftarrow> normalizeNumber pf (get_prop n5 (str ''total_value''));
          Some (set_prop n5 (str ''total_value'') total)
        })"

text \<open>
  \<open>processData\<close>: \<open>None\<close> stands for an argument that is not an array. Each row is
  normalised inside its own \<open>try\<close>; the \<open>catch\<close> returns the row as it came.
\<close>

datatype outrow = Normalized obj | Original rawrow

definition process_row :: "platform \<Rightarrow> nat \<Rightarrow> rawrow \<Rightarrow> outrow" where
  "process_row pf index r =
     (case normalizeRow pf r of
        None \<Rightarrow> Original r
      | Some normalized \<Rightarrow>
          Normalized (if \<not> truthy (get_prop normalized (str ''id''))
                      then set_prop normalized (str ''id'') (JNum (Fin (of_nat index + 1)))
                      else normalized))"

definition processData :: "platform \<Rightarrow> rawrow list option \<Rightarrow> outrow list" where
  "processData pf data =
     (case data of
        None \<Rightarrow> []
      | Some rows \<Rightarrow> map (\<lambda>(index, r). process_row pf index r) (enumerate 0 rows))"

section \<open>The upload controller: support status, strict scheme\<close>

text \<open>
  The \<open>normalizeSupport\<close> that the controller builds in when the column mapper cannot
  be loaded.
\<close>

definition normalizeSupport_strict :: "platform \<Rightarrow> jsval \<Rightarrow> jsval option" where
  "normalizeSupport_strict pf v =
     (if \<not> truthy v \<or> strict_eq v (JStr []) \<or> strict_eq v JNull
          \<or> strict_eq v JUndefined
      then Some (JStr (str ''Expired''))
      else do {
        s \<leftarrow> toString pf v;
        let strValue = trim s; upperValue = toUpperCase pf strValue in
        if strValue = str ''-'' \<or> strValue = str ''.'' \<or> strValue = str ''?'' \<or> strValue = str ''0''
           \<or> strValue = []
        then Some (JStr (str ''Expired''))
        else if upperValue = str ''ACTIVE'' \<or> upperValue = str ''COVERED''
        then Some (JStr (str ''Active''))
        else Some (JStr (str ''Expired''))
      })"

section \<open>The upload controller: analytics\<close>

text \<open>
  The analytics of \<open>uploadFile\<close> over the normalised items, each an object. The
  current date is the argument \<open>now\<close>, in milliseconds since the epoch.
\<close>

definition totalQuantity :: "platform \<Rightarrow> obj list \<Rightarrow> int" where
  "totalQuantity pf items =
     foldl (\<lambda>sum item. sum + parseInt_or_0 pf (get_prop item (str ''qty''))) 0 items"

definition activeSupport :: "obj list \<Rightarrow> nat" where
  "activeSupport items =
     length (filter (\<lambda>item. strict_eq (get_prop item (str ''support_coverage'')) (JStr (str ''Active''))) items)"

text \<open>
  The test shared by the three total counts and the three per-category counts: the field
  is truthy and not the sentinel, \<open>new Date\<close> of it is valid and not after \<open>now\<close>.
\<close>

definition date_reached :: "platform \<Rightarrow> int \<Rightarrow> jsval \<Rightarrow> bool" where
  "date_reached pf now v =
     (truthy v \<and> \<not> strict_eq v (JStr (str ''-'')) \<and>
      (case newDate pf v of None \<Rightarrow> False | Some t \<Rightarrow> t \<le> now))"

definition vulnField :: "obj \<Rightarrow> jsval" where
  "vulnField item =
     js_or (js_or (js_or (get_prop item (str ''End of Vulnerability/Security Support''))
                         (get_prop item (str ''end_of_vulnerability_support'')))
                  (get_prop item (str ''End of Security Support'')))
           (JStr (str ''-''))"

definition totalEndOfSale :: "platform \<Rightarrow> int \<Rightarrow> obj list \<Rightarrow> nat" where
  "totalEndOfSale pf now items =
     length (filter (\<lambda>item. date_reached pf now (get_prop item (str ''end_of_sale''))) items)"

record breakdown_entry =
  count :: int
  quantity :: int
  activeCount :: int
  expiredCount :: int

definition new_entry :: breakdown_entry where
  "new_entry = \<lparr> count = 0, quantity = 0, activeCount = 0, expiredCount = 0 \<rparr>"

text \<open>The four updates that one item makes to the entry of its group.\<close>

definition add_item :: "platform \<Rightarrow> obj \<Rightarrow> breakdown_entry \<Rightarrow> breakdown_entry" where
  "add_item pf item e =
     (let e1 = e\<lparr> count := count e + 1 \<rparr>;
          e2 = e1\<lparr> quantity := quantity e1 + parseInt_or_0 pf (get_prop item (str ''qty'')) \<rparr>
      in if strict_eq (get_prop item (str ''support_coverage'')) (JStr (str ''Active''))
         then e2\<lparr> activeCount := activeCount e2 + 1 \<rparr>
         else if strict_eq (get_prop item (str ''support_coverage'')) (JStr (str ''Expired''))
         then e2\<lparr> expiredCount := expiredCount e2 + 1 \<rparr>
         else e2)"

text \<open>
  One pass of a group-by loop. The breakdown is a plain object used as a dictionary: the
  group value becomes a property key by \<open>String\<close>, and \<open>!breakdown[key]\<close> reads
  through the prototype. For a key that \<open>Object.prototype\<close> defines and the breakdown
  does not own, the test finds the inherited member, no entry is created, and the four
  updates go to that member: the own properties of the breakdown stay as they are.
\<close>

definition group_add ::
  "platform \<Rightarrow> (jsstring \<times> breakdown_entry) list \<Rightarrow> jsval \<Rightarrow> obj
     \<Rightarrow> (jsstring \<times> breakdown_entry) list" where
  "group_add pf breakdown g item =
     (let key = ToString pf g in
      case map_of breakdown key of
        Some e \<Rightarrow> AList.update key (add_item pf item e) breakdown
      | None \<Rightarrow>
          if key \<in> set Object_prototype_names then breakdown
          else AList.update key (add_item pf item new_entry) breakdown)"

definition mfg_group :: "obj \<Rightarrow> jsval" where
  "mfg_group item =
     (if truthy (get_prop item (str ''mfg'')) \<and> \<not> strict_eq (get_prop item (str ''mfg'')) (JStr (str ''-''))
      then get_prop item (str ''mfg'') else JStr (str ''Unknown''))"

definition cat_group :: "obj \<Rightarrow> jsval" where
  "cat_group item = js_or (get_prop item (str ''category'')) (JStr (str ''Uncategorized''))"

definition manufacturerBreakdown :: "platform \<Rightarrow> obj list \<Rightarrow> (jsstring \<times> breakdown_entry) list" where
  "manufacturerBreakdown pf items =
     foldl (\<lambda>breakdown item. group_add pf breakdown (mfg_group item) item) [] items"

definition categoryBreakdown :: "platform \<Rightarrow> obj list \<Rightarrow> (jsstring \<times> breakdown_entry) list" where
  "categoryBreakdown pf items =
     foldl (\<lambda>breakdown item. group_add pf breakdown (cat_group item) item) [] items"

definition requiredFields :: "jsstring list" where
  "requiredFields =
     map str
     [''mfg'', ''category'', ''product_id'', ''description'', ''support_coverage'',
      ''end_of_sale'', ''last_day_support'', ''asset_type'', ''ship_date'']"

definition filled :: "obj list \<Rightarrow> jsstring \<Rightarrow> nat" where
  "filled items field =
     length (filter (\<lambda>item. truthy (get_prop item field) \<and>
                            \<not> strict_eq (get_prop item field) (JStr (str ''-'')) \<and>
                            \<not> strict_eq (get_prop item field) (JStr []) \<and>
                            \<not> strict_eq (get_prop item field) (JStr (str ''N/A''))) items)"

text \<open>\<open>Math.round((filled / normalizedData.length) * 100)\<close> for each required field.\<close>

definition fieldCompleteness :: "platform \<Rightarrow> obj list \<Rightarrow> (jsstring \<times> jsnum) list" where
  "fieldCompleteness pf items =
     map (\<lambda>field. (field,
            Math_round (js_times pf (js_div pf (Fin (of_nat (filled items field)))
                                               (Fin (of_nat (length items)))) 100)))
       requiredFields"

text \<open>The coverage rate of the summary, which tests for the empty data set first.\<close>

definition supportCoverage :: "platform \<Rightarrow> obj list \<Rightarrow> jsnum" where
  "supportCoverage pf items =
     (if 0 < length items
      then Math_round (js_times pf (js_div pf (Fin (of_nat (activeSupport items)))
                                              (Fin (of_nat (length items)))) 100)
      else Fin 0)"

record lifecycle_entry =
  totalQty :: int
  endOfSale :: int
  endOfSWVuln :: int
  lastDaySupport :: int
  total :: int

definition lifecycle_step ::
  "platform \<Rightarrow> int \<Rightarrow> lifecycle_entry \<Rightarrow> obj \<Rightarrow> lifecycle_entry" where
  "lifecycle_step pf now acc item =
     \<lparr> totalQty = totalQty acc + parseInt_or_0 pf (get_prop item (str ''qty'')),
       endOfSale = (if date_reached pf now (get_prop item (str ''end_of_sale''))
                    then endOfSale acc + 1 else endOfSale acc),
       endOfSWVuln = (if date_reached pf now (vulnField item)
                      then endOfSWVuln acc + 1 else endOfSWVuln acc),
       lastDaySupport = (if date_reached pf now (get_prop item (str ''last_day_support''))
                         then lastDaySupport acc + 1 else lastDaySupport acc),
       total = total acc \<rparr>"

definition categoryItems :: "obj list \<Rightarrow> jsstring \<Rightarrow> obj list" where
  "categoryItems items category =
     filter (\<lambda>item. strict_eq (cat_group item) (JStr category)) items"

definition lifecycle_of :: "platform \<Rightarrow> int \<Rightarrow> obj list \<Rightarrow> lifecycle_entry" where
  "lifecycle_of pf now citems =
     foldl (lifecycle_step pf now)
       \<lparr> totalQty = 0, endOfSale = 0, endOfSWVuln = 0, lastDaySupport = 0,
         total = int (length citems) \<rparr> citems"

text \<open>
  \<open>lifecycleByCategory\<close>: one entry for each own key of the category breakdown, over
  the items whose category is strictly equal to that key, a string.
\<close>

definition lifecycleByCategory ::
  "platform \<Rightarrow> int \<Rightarrow> obj list \<Rightarrow> (jsstring \<times> lifecycle_entry) list" where
  "lifecycleByCategory pf now items =
     map (\<lambda>category. (category, lifecycle_of pf now (categoryItems items category)))
       (map fst (categoryBreakdown pf items))"

section \<open>The upload controller: results\<close>

text \<open>
  \<open>Array.prototype.slice(start, end)\<close>: a negative bound counts from the end of the
  array, and both bounds are then cut to the range from 0 to the length.
\<close>

definition js_slice :: "'a list \<Rightarrow> int \<Rightarrow> int \<Rightarrow> 'a list" where
  "js_slice xs start end =
     (let len = int (length xs);
          k = (if start < 0 then max (len + start) 0 else min start len);
          final = (if end < 0 then max (len + end) 0 else min end len)
      in take (nat (final - k)) (drop (nat k) xs))"

record ('a, 's) job =
  job_data :: "'a list"
  job_summary :: 's

record pagination =
  pg_total :: int
  pg_limit :: int
  pg_offset :: int

datatype ('a, 's) response = JobNotFound | Throws | Results "'a list" 's pagination

text \<open>
  \<open>getResults\<close>: the two query parameters are strings, or \<open>undefined\<close> when not
  given. \<open>parseInt(q) || d\<close> takes the default \<open>d\<close> for \<open>NaN\<close> and for 0.
  The job store is a plain object with the stored jobs as its own properties. An id that
  names no stored job but a member of \<open>Object.prototype\<close> finds that member, which
  has no \<open>data\<close>, and reading the length of its data throws a TypeError.
\<close>

definition parseInt_or :: "platform \<Rightarrow> jsval \<Rightarrow> int \<Rightarrow> int" where
  "parseInt_or pf q d = (case parseInt pf q of None \<Rightarrow> d | Some n \<Rightarrow> if n = 0 then d else n)"

definition getResults ::
  "platform \<Rightarrow> (jsstring \<rightharpoonup> ('a, 's) job) \<Rightarrow> jsstring \<Rightarrow> jsval \<Rightarrow> jsval
     \<Rightarrow> ('a, 's) response" where
  "getResults pf jobStorage jobId query_limit query_offset =
     (case jobStorage jobId of
        None \<Rightarrow> if jobId \<in> set Object_prototype_names then Throws else JobNotFound
      | Some jb \<Rightarrow>
          (let limit = parseInt_or pf query_limit (int (length (job_data jb)));
               offset = parseInt_or pf query_offset 0
           in Results (js_slice (job_data jb) offset (offset + limit)) (job_summary jb)
                \<lparr> pg_total = int (length (job_data jb)), pg_limit = limit,
                  pg_offset = offset \<rparr>))"



section \<open>Basic facts\<close>

lemma code_eq_iff [simp]: "code a = code b \<longleftrightarrow> a = b"
  by (simp add: code_def)

lemma str_eq_iff [simp]: "str a = str b \<longleftrightarrow> a = b"
  by (simp add: str_def inj_map_eq_map inj_on_def)

lemma str_Nil [simp]: "str [] = []"
  by (simp add: str_def)

lemma str_eq_Nil [simp]: "str a = [] \<longleftrightarrow> a = []" "[] = str a \<longleftrightarrow> a = []"
  by (auto simp: str_def)

lemma strict_eq_JStr [simp]: "strict_eq v (JStr s) = (v = JStr s)"
  by (auto simp: strict_eq_def)

lemma strict_eq_absent [simp]:
  "strict_eq v JNull = (v = JNull)" "strict_eq v JUndefined = (v = JUndefined)"
  by (auto simp: strict_eq_def)

lemma toString_truthy: "truthy v \<Longrightarrow> toString pf v = Some (ToString pf v)"
  by (cases v) simp_all

section \<open>Support status, lenient scheme\<close>

lemma lower_trim_Not_Covered:
  "trim (toLowerCase pf (str ''Not Covered'')) = str ''not covered''"
  by (simp add: trim_def toLowerCase_def ascii_lower_def is_ascii_def is_ws_def str_def code_def)

lemma includes_covered:
  "str_includes (str ''not covered'') (str ''not covered'') \<and>
   str_includes (str ''not covered'') (str ''covered'')"
  by (simp add: startsWith_def str_def code_def)

text \<open>
  C1. The lenient coercer is claimed to return \<open>Expired\<close> for every input whose lowered,
  trimmed form matches the expired vocabulary, \<open>Not Covered\<close> in particular. The lowered
  form of \<open>Not Covered\<close> does contain the expired word \<open>not covered\<close>, but it also
  contains the active word \<open>covered\<close>, and the active vocabulary is tested first: on
  every platform the coercer returns \<open>Active\<close> for it.
\<close>

theorem normalizeSupport_Not_Covered_is_Active:
  "str_includes (trim (toLowerCase pf (str ''Not Covered''))) (str ''not covered'') \<and>
   normalizeSupport pf (JStr (str ''Not Covered'')) = Some (JStr (str ''Active''))"
  by (simp add: normalizeSupport_def lower_trim_Not_Covered includes_covered)

theorem normalizeSupport_Not_Covered_witness:
  "normalizeSupport ref_platform (JStr (str ''Not Covered'')) \<noteq> Some (JStr (str ''Expired''))"
  using normalizeSupport_Not_Covered_is_Active [of ref_platform] by simp

section \<open>Support status, strict scheme\<close>

lemma toUpperCase_placeholders:
  "toUpperCase pf (str ''-'') = str ''-''" "toUpperCase pf (str ''.'') = str ''.''"
  "toUpperCase pf (str ''?'') = str ''?''" "toUpperCase pf (str ''0'') = str ''0''"
  "toUpperCase pf [] = []"
  by (simp_all add: toUpperCase_def ascii_upper_def is_ascii_def str_def code_def)

lemma normalizeSupport_strict_eq:
  "normalizeSupport_strict pf v =
     Some (JStr (if truthy v \<and> (toUpperCase pf (trim (ToString pf v)) = str ''ACTIVE'' \<or>
                                toUpperCase pf (trim (ToString pf v)) = str ''COVERED'')
                 then str ''Active'' else str ''Expired''))"
  by (cases v) (auto simp: normalizeSupport_strict_def Let_def toUpperCase_placeholders)

lemma upper_trim_Unknown: "toUpperCase pf (trim (str ''Unknown'')) = str ''UNKNOWN''"
  by (simp add: trim_def toUpperCase_def ascii_upper_def is_ascii_def is_ws_def str_def code_def)

lemma trim_placeholders:
  "trim [] = []" "trim (str ''-'') = str ''-''" "trim (str ''.'') = str ''.''"
  "trim (str ''?'') = str ''?''" "trim (str ''0'') = str ''0''"
  by (simp_all add: trim_def is_ws_def str_def code_def)

text \<open>
  C6. The strict coercer never throws and returns \<open>Active\<close> or \<open>Expired\<close>, never the
  sentinel. The empty string, the placeholders \<open>-\<close>, \<open>.\<close>, \<open>?\<close>, \<open>0\<close> and an
  absent value give \<open>Expired\<close>. The result is \<open>Active\<close> exactly when the value is
  truthy and its string, trimmed and then upper-cased as the platform does it, is
  \<open>ACTIVE\<close> or \<open>COVERED\<close>; every other value, \<open>Unknown\<close> among them, gives
  \<open>Expired\<close>.
\<close>

theorem normalizeSupport_strict_scheme:
  "(\<forall>v \<in> {JStr [], JStr (str ''-''), JStr (str ''.''), JStr (str ''?''), JStr (str ''0''),
           JUndefined, JNull}.
      normalizeSupport_strict pf v = Some (JStr (str ''Expired''))) \<and>
   (normalizeSupport_strict pf v = Some (JStr (str ''Active'')) \<longleftrightarrow>
      truthy v \<and> toUpperCase pf (trim (ToString pf v)) \<in> {str ''ACTIVE'', str ''COVERED''}) \<and>
   (normalizeSupport_strict pf v \<noteq> Some (JStr (str ''Active'')) \<longrightarrow>
      normalizeSupport_strict pf v = Some (JStr (str ''Expired''))) \<and>
   normalizeSupport_strict pf (JStr (str ''Unknown'')) = Some (JStr (str ''Expired'')) \<and>
   normalizeSupport_strict pf v \<noteq> Some (JStr (str ''-''))"
proof -
  have sentinels: "\<forall>v \<in> {JStr [], JStr (str ''-''), JStr (str ''.''), JStr (str ''?''),
           JStr (str ''0''), JUndefined, JNull}.
      normalizeSupport_strict pf v = Some (JStr (str ''Expired''))"
    by (simp add: normalizeSupport_strict_eq trim_placeholders toUpperCase_placeholders)
  have unknown: "normalizeSupport_strict pf (JStr (str ''Unknown'')) = Some (JStr (str ''Expired''))"
    by (simp add: normalizeSupport_strict_eq upper_trim_Unknown)
  show ?thesis
    using sentinels unknown by (simp add: normalizeSupport_strict_eq)
qed

theorem normalizeSupport_strict_scheme_witness:
  "normalizeSupport_strict ref_platform (JStr (str ''-'')) = Some (JStr (str ''Expired'')) \<and>
   normalizeSupport_strict ref_platform (JStr (str '' covered '')) = Some (JStr (str ''Active'')) \<and>
   normalizeSupport_strict ref_platform (JStr (str ''Unknown'')) = Some (JStr (str ''Expired''))"
proof -
  have up: "toUpperCase ref_platform (trim (ToString ref_platform (JStr (str '' covered '')))) =
              str ''COVERED''"
    by (simp add: trim_def toUpperCase_def ascii_upper_def is_ascii_def is_ws_def str_def code_def)
  have "truthy (JStr (str '' covered ''))" by simp
  with up show ?thesis
    using normalizeSupport_strict_scheme [of ref_platform "JStr (str '' covered '')"] by simp
qed


text \<open>
  White space around the word is trimmed whatever its kind, a no-break space U+00A0
  included, and the upper-casing of a string with a character outside ASCII is the
  platform's: where the dotless i U+0131 upper-cases to \<open>I\<close>, as the language has it,
  the word written with it is \<open>Active\<close> too.
\<close>

lemma normalizeSupport_strict_no_break_space:
  "normalizeSupport_strict pf (JStr (str ''ACTIVE'' @ [0xA0])) = Some (JStr (str ''Active''))"
proof -
  have "toUpperCase pf (trim (str ''ACTIVE'' @ [0xA0])) = str ''ACTIVE''"
    by (simp add: trim_def toUpperCase_def ascii_upper_def is_ascii_def is_ws_def str_def code_def)
  then show ?thesis
    by (simp add: normalizeSupport_strict_eq str_def code_def)
qed

lemma normalizeSupport_strict_dotless_i:
  assumes "String_toUpperCase pf (str ''ACT'' @ [0x131] @ str ''VE'') = str ''ACTIVE''"
  shows "normalizeSupport_strict pf (JStr (str ''ACT'' @ [0x131] @ str ''VE'')) =
           Some (JStr (str ''Active''))"
proof -
  have "trim (str ''ACT'' @ [0x131] @ str ''VE'') = str ''ACT'' @ [0x131] @ str ''VE''"
    by (simp add: trim_def is_ws_def str_def code_def)
  moreover have "toUpperCase pf (str ''ACT'' @ [0x131] @ str ''VE'') = str ''ACTIVE''"
    using assms by (simp add: toUpperCase_def is_ascii_def str_def code_def)
  ultimately show ?thesis
    by (simp add: normalizeSupport_strict_eq str_def code_def)
qed

section \<open>Dates as ISO strings\<close>

lemma dec_digits_digit: "c \<in> set (dec_digits n) \<Longrightarrow> is_digit c"
proof (induction n arbitrary: c rule: dec_digits.induct)
  case (1 n)
  show ?case
  proof (cases "n < 10")
    case True
    with 1(2) show ?thesis
      by (subst (asm) dec_digits.simps) (simp add: is_digit_def code_def)
  next
    case False
    have "c \<in> set (dec_digits (n div 10)) \<or> c = code (CHR ''0'') + int (n mod 10)"
      using 1(2) False by (subst (asm) dec_digits.simps) auto
    then show ?thesis
    proof
      assume "c \<in> set (dec_digits (n div 10))"
      then show ?thesis using 1(1) False by simp
    next
      assume "c = code (CHR ''0'') + int (n mod 10)"
      moreover have "n mod 10 < 10" by simp
      ultimately show ?thesis by (simp add: is_digit_def code_def)
    qed
  qed
qed

lemma dec_digits_nonempty: "dec_digits n \<noteq> []"
  by (subst dec_digits.simps) simp

lemma pad_nonempty: "pad w n \<noteq> []"
  by (simp add: pad_def dec_digits_nonempty)

lemma pad_no_T: "c \<in> set (pad w n) \<Longrightarrow> c \<noteq> code (CHR ''T'')"
proof -
  assume "c \<in> set (pad w n)"
  then have "c = code (CHR ''0'') \<or> c \<in> set (dec_digits n)" by (auto simp: pad_def)
  then have "is_digit c"
  proof
    assume "c = code (CHR ''0'')"
    then show ?thesis by (simp add: is_digit_def code_def)
  next
    assume "c \<in> set (dec_digits n)"
    then show ?thesis by (rule dec_digits_digit)
  qed
  then show ?thesis by (auto simp: is_digit_def code_def)
qed

lemma iso_year_no_T: "c \<in> set (iso_year y) \<Longrightarrow> c \<noteq> code (CHR ''T'')"
  by (auto simp: iso_year_def str_def dest: pad_no_T split: if_splits)

lemma iso_year_nonempty: "iso_year y \<noteq> []"
  by (simp add: iso_year_def pad_nonempty)

lemma iso_date_part:
  assumes "civil_from_days (t div msPerDay) = (y, m, d)"
  shows "takeWhile (\<lambda>c. c \<noteq> code (CHR ''T'')) (toISOString t) =
           iso_year y @ str ''-'' @ pad 2 (nat m) @ str ''-'' @ pad 2 (nat d)"
proof -
  define date where "date = iso_year y @ str ''-'' @ pad 2 (nat m) @ str ''-'' @ pad 2 (nat d)"
  have noT: "c \<noteq> code (CHR ''T'')" if "c \<in> set date" for c
    using that iso_year_no_T[of c y] pad_no_T[of c 2 "nat m"] pad_no_T[of c 2 "nat d"]
    by (auto simp: date_def str_def)
  obtain rest where split: "toISOString t = date @ code (CHR ''T'') # rest"
    using assms by (simp add: toISOString_def Let_def date_def str_def)
  have "takeWhile (\<lambda>c. c \<noteq> code (CHR ''T'')) (date @ code (CHR ''T'') # rest) =
          date @ takeWhile (\<lambda>c. c \<noteq> code (CHR ''T'')) (code (CHR ''T'') # rest)"
    by (rule takeWhile_append2) (use noT in blast)
  then show ?thesis by (simp add: split date_def)
qed

lemma formatDate_cases:
  "formatDate pf v = JStr (str ''-'') \<or> formatDate pf v = v \<and> truthy v \<or>
   (\<exists>t. formatDate pf v = JStr (takeWhile (\<lambda>c. c \<noteq> code (CHR ''T'')) (toISOString t)))"
  by (auto simp: formatDate_def split: option.splits)

lemma iso_date_nonempty: "takeWhile (\<lambda>c. c \<noteq> code (CHR ''T'')) (toISOString t) \<noteq> []"
proof -
  obtain y m d where c: "civil_from_days (t div msPerDay) = (y, m, d)"
    using prod_cases3 by blast
  show ?thesis using iso_year_nonempty[of y] by (simp add: iso_date_part[OF c])
qed

lemma formatDate_truthy: "truthy (formatDate pf v)"
  using formatDate_cases[of pf v] iso_date_nonempty by auto

lemma formatDate_absent: "formatDate pf JUndefined = JStr (str ''-'')"
  by (simp add: formatDate_def)

section \<open>The coercers never throw\<close>

lemma normalizeSupport_total:
  "\<exists>w. normalizeSupport pf v = Some w \<and> truthy w"
proof (cases "\<not> truthy v \<or> v = JStr (str ''-'') \<or> v = JStr (str ''N/A'') \<or> v = JStr (str ''n/a'')")
  case True
  then show ?thesis by (auto simp: normalizeSupport_def)
next
  case False
  then have "toString pf v = Some (ToString pf v)" by (simp add: toString_truthy)
  with False have "normalizeSupport pf v \<in>
      {Some (JStr (str ''Active'')), Some (JStr (str ''Expired'')), Some v}"
    by (simp add: normalizeSupport_def Let_def)
  with False show ?thesis by auto
qed

lemma normalizeSupport_absent: "normalizeSupport pf JUndefined = Some (JStr (str ''-''))"
  by (simp add: normalizeSupport_def)

lemma normalizeNumber_total:
  "\<exists>x. normalizeNumber pf v = Some (JNum x) \<and> x \<noteq> NaN"
proof (cases "\<not> truthy v \<or> v = JStr (str ''-'') \<or> v = JStr (str ''N/A'') \<or> v = JStr (str ''n/a'')")
  case True
  then show ?thesis by (auto simp: normalizeNumber_def)
next
  case False
  then have "toString pf v = Some (ToString pf v)" by (simp add: toString_truthy)
  with False show ?thesis by (auto simp: normalizeNumber_def Let_def)
qed

lemma normalizeNumber_absent: "normalizeNumber pf JUndefined = Some (JNum (Fin 0))"
  by (simp add: normalizeNumber_def)

section \<open>The row normalizer\<close>

lemma map_of_set_prop:
  "map_of (set_prop ob k v) =
     (if k = str ''__proto__'' then map_of ob else (map_of ob)(k \<mapsto> v))"
  by (simp add: set_prop_def update_conv')

lemma get_set_prop:
  "get_prop (set_prop ob k v) k' =
     (if k' = k \<and> k \<noteq> str ''__proto__'' then v else get_prop ob k')"
  by (simp add: get_prop_def map_of_set_prop)

lemma map_key_eq: "map_key pf row n k = set_prop n (resolve_key pf k) (get_prop row k)"
  by (simp add: map_key_def resolve_key_def Let_def split: option.splits)

lemma dom_foldl_map_key:
  "dom (map_of (foldl (map_key pf row) acc ks)) =
     dom (map_of acc) \<union> {f. f \<noteq> str ''__proto__'' \<and> (\<exists>k \<in> set ks. resolve_key pf k = f)}"
  by (induction ks arbitrary: acc) (auto simp: map_key_eq map_of_set_prop)

lemma get_prop_foldl_map_key:
  "f \<noteq> str ''__proto__'' \<Longrightarrow>
   get_prop (foldl (map_key pf row) acc ks) f =
     (case find (\<lambda>k. resolve_key pf k = f) (rev ks) of
        None \<Rightarrow> get_prop acc f
      | Some k \<Rightarrow> get_prop row k)"
  by (induction ks rule: rev_induct) (auto simp: map_key_eq get_set_prop)

text \<open>
  The loop over the keys leaves under each field the cell that the specification maps to
  it: the last header that resolves to the field wins.
\<close>

lemma map_keys_cell:
  assumes "f \<noteq> str ''__proto__''"
  shows "get_prop (map_keys pf row) f = spec_mapped_cell pf row f"
proof -
  have "get_prop (foldl (map_key pf row) [] (map fst row)) f =
          (case find (\<lambda>k. resolve_key pf k = f) (rev (map fst row)) of
             None \<Rightarrow> get_prop [] f
           | Some k \<Rightarrow> get_prop row k)"
    using assms by (rule get_prop_foldl_map_key)
  moreover have "get_prop [] f = JUndefined" by (simp add: get_prop_def)
  ultimately show ?thesis
    by (simp add: map_keys_def spec_mapped_cell_def split: option.splits)
qed

lemma map_keys_dom:
  "f \<noteq> str ''__proto__'' \<Longrightarrow>
   (map_of (map_keys pf row) f \<noteq> None) = (\<exists>k \<in> set (map fst row). resolve_key pf k = f)"
proof -
  assume "f \<noteq> str ''__proto__''"
  then have "f \<in> dom (map_of (map_keys pf row)) \<longleftrightarrow>
          (\<exists>k \<in> set (map fst row). resolve_key pf k = f)"
    by (simp add: map_keys_def dom_foldl_map_key)
  then show ?thesis by (simp add: domIff)
qed

lemma normalizeRow_Row:
  "\<exists>n s q t.
     normalizeRow pf (Row row) = Some n \<and>
     normalizeSupport pf (get_prop (map_keys pf row) (str ''support_coverage'')) = Some s \<and>
     normalizeNumber pf (get_prop (map_keys pf row) (str ''qty'')) = Some (JNum q) \<and>
     normalizeNumber pf (get_prop (map_keys pf row) (str ''total_value'')) = Some (JNum t) \<and>
     truthy s \<and> q \<noteq> NaN \<and> t \<noteq> NaN \<and>
     map_of n = (map_of (map_keys pf row))
       (str ''support_coverage'' \<mapsto> s,
        str ''ship_date'' \<mapsto> formatDate pf (get_prop (map_keys pf row) (str ''ship_date'')),
        str ''end_of_sale'' \<mapsto> formatDate pf (get_prop (map_keys pf row) (str ''end_of_sale'')),
        str ''last_day_support'' \<mapsto>
          formatDate pf (get_prop (map_keys pf row) (str ''last_day_support'')),
        str ''qty'' \<mapsto> JNum q, str ''total_value'' \<mapsto> JNum t)"
proof -
  define n0 where "n0 = map_keys pf row"
  obtain s where s: "normalizeSupport pf (get_prop n0 (str ''support_coverage'')) = Some s" "truthy s"
    using normalizeSupport_total by blast
  define n1 where "n1 = set_prop n0 (str ''support_coverage'') s"
  define d1 where "d1 = formatDate pf (get_prop n0 (str ''ship_date''))"
  define n2 where "n2 = set_prop n1 (str ''ship_date'') d1"
  define d2 where "d2 = formatDate pf (get_prop n0 (str ''end_of_sale''))"
  define n3 where "n3 = set_prop n2 (str ''end_of_sale'') d2"
  define d3 where "d3 = formatDate pf (get_prop n0 (str ''last_day_support''))"
  define n4 where "n4 = set_prop n3 (str ''last_day_support'') d3"
  obtain q where q: "normalizeNumber pf (get_prop n0 (str ''qty'')) = Some (JNum q)" "q \<noteq> NaN"
    using normalizeNumber_total by blast
  define n5 where "n5 = set_prop n4 (str ''qty'') (JNum q)"
  obtain t where t: "normalizeNumber pf (get_prop n0 (str ''total_value'')) = Some (JNum t)" "t \<noteq> NaN"
    using normalizeNumber_total by blast
  define n where "n = set_prop n5 (str ''total_value'') (JNum t)"
  have reads:
    "get_prop n1 (str ''ship_date'') = get_prop n0 (str ''ship_date'')"
    "get_prop n2 (str ''end_of_sale'') = get_prop n0 (str ''end_of_sale'')"
    "get_prop n3 (str ''last_day_support'') = get_prop n0 (str ''last_day_support'')"
    "get_prop n4 (str ''qty'') = get_prop n0 (str ''qty'')"
    "get_prop n5 (str ''total_value'') = get_prop n0 (str ''total_value'')"
    by (simp_all add: n5_def n4_def n3_def n2_def n1_def get_set_prop)
  have run: "normalizeRow pf (Row row) = Some n"
    unfolding normalizeRow_def
    using s(1) q(1) t(1)
    by (simp add: Let_def n0_def[symmetric] n1_def[symmetric] reads d1_def[symmetric]
        n2_def[symmetric] d2_def[symmetric] n3_def[symmetric] d3_def[symmetric]
        n4_def[symmetric] n5_def[symmetric] n_def[symmetric])
  have m: "map_of n = (map_of n0)
       (str ''support_coverage'' \<mapsto> s, str ''ship_date'' \<mapsto> d1, str ''end_of_sale'' \<mapsto> d2,
        str ''last_day_support'' \<mapsto> d3, str ''qty'' \<mapsto> JNum q, str ''total_value'' \<mapsto> JNum t)"
    by (simp add: n_def n5_def n4_def n3_def n2_def n1_def map_of_set_prop)
  from run s q t m show ?thesis
    unfolding n0_def d1_def d2_def d3_def by blast
qed

text \<open>
  C3, as amended. The row normalizer never throws on an object, and its record always
  holds the six coerced fields, each with the result of its coercer on the cell mapped to
  the field (the cell of the last header that resolves to it). So \<open>support_coverage\<close>,
  \<open>ship_date\<close>, \<open>end_of_sale\<close> and \<open>last_day_support\<close> hold a truthy value, the
  sentinel \<open>-\<close> when no cell is mapped, and \<open>qty\<close> and \<open>total_value\<close> hold a
  number that is not \<open>NaN\<close>, 0 when no cell is mapped. Each of the other seven
  canonical fields is a property of the record exactly when some header of the raw row
  resolves to it, and then holds the mapped cell as it came; the normalizer supplies no
  default for them.
\<close>

theorem normalizeRow_populated_fields:
  "\<exists>n. normalizeRow pf (Row row) = Some n \<and>
     normalizeSupport pf (spec_mapped_cell pf row (str ''support_coverage'')) =
       Some (get_prop n (str ''support_coverage'')) \<and>
     get_prop n (str ''ship_date'') = formatDate pf (spec_mapped_cell pf row (str ''ship_date'')) \<and>
     get_prop n (str ''end_of_sale'') =
       formatDate pf (spec_mapped_cell pf row (str ''end_of_sale'')) \<and>
     get_prop n (str ''last_day_support'') =
       formatDate pf (spec_mapped_cell pf row (str ''last_day_support'')) \<and>
     normalizeNumber pf (spec_mapped_cell pf row (str ''qty'')) = Some (get_prop n (str ''qty'')) \<and>
     normalizeNumber pf (spec_mapped_cell pf row (str ''total_value'')) =
       Some (get_prop n (str ''total_value'')) \<and>
     (\<forall>f \<in> {str ''support_coverage'', str ''ship_date'', str ''end_of_sale'',
             str ''last_day_support''}.
        truthy (get_prop n f) \<and>
        (spec_mapped_cell pf row f = JUndefined \<longrightarrow> get_prop n f = JStr (str ''-''))) \<and>
     (\<forall>f \<in> {str ''qty'', str ''total_value''}.
        (\<exists>x. get_prop n f = JNum x \<and> x \<noteq> NaN) \<and>
        (spec_mapped_cell pf row f = JUndefined \<longrightarrow> get_prop n f = JNum (Fin 0))) \<and>
     (\<forall>f \<in> {str ''id'', str ''mfg'', str ''category'', str ''asset_type'', str ''type'',
             str ''product_id'', str ''description''}.
        (map_of n f \<noteq> None) = (\<exists>k \<in> set (map fst row). resolve_key pf k = f) \<and>
        get_prop n f = spec_mapped_cell pf row f)"
proof -
  define n0 where "n0 = map_keys pf row"
  obtain n s q t where
    run: "normalizeRow pf (Row row) = Some n" and
    s: "normalizeSupport pf (get_prop n0 (str ''support_coverage'')) = Some s" "truthy s" and
    q: "normalizeNumber pf (get_prop n0 (str ''qty'')) = Some (JNum q)" "q \<noteq> NaN" and
    t: "normalizeNumber pf (get_prop n0 (str ''total_value'')) = Some (JNum t)" "t \<noteq> NaN" and
    m: "map_of n = (map_of n0)
       (str ''support_coverage'' \<mapsto> s,
        str ''ship_date'' \<mapsto> formatDate pf (get_prop n0 (str ''ship_date'')),
        str ''end_of_sale'' \<mapsto> formatDate pf (get_prop n0 (str ''end_of_sale'')),
        str ''last_day_support'' \<mapsto> formatDate pf (get_prop n0 (str ''last_day_support'')),
        str ''qty'' \<mapsto> JNum q, str ''total_value'' \<mapsto> JNum t)"
    using normalizeRow_Row[of pf row] unfolding n0_def by blast
  have cell: "get_prop n0 f = spec_mapped_cell pf row f" if "f \<noteq> str ''__proto__''" for f
    using that by (simp add: n0_def map_keys_cell)
  have cells:
    "get_prop n0 (str ''support_coverage'') = spec_mapped_cell pf row (str ''support_coverage'')"
    "get_prop n0 (str ''ship_date'') = spec_mapped_cell pf row (str ''ship_date'')"
    "get_prop n0 (str ''end_of_sale'') = spec_mapped_cell pf row (str ''end_of_sale'')"
    "get_prop n0 (str ''last_day_support'') = spec_mapped_cell pf row (str ''last_day_support'')"
    "get_prop n0 (str ''qty'') = spec_mapped_cell pf row (str ''qty'')"
    "get_prop n0 (str ''total_value'') = spec_mapped_cell pf row (str ''total_value'')"
    by (simp_all add: cell)
  have vals:
    "get_prop n (str ''support_coverage'') = s"
    "get_prop n (str ''ship_date'') = formatDate pf (spec_mapped_cell pf row (str ''ship_date''))"
    "get_prop n (str ''end_of_sale'') = formatDate pf (spec_mapped_cell pf row (str ''end_of_sale''))"
    "get_prop n (str ''last_day_support'') =
       formatDate pf (spec_mapped_cell pf row (str ''last_day_support''))"
    "get_prop n (str ''qty'') = JNum q"
    "get_prop n (str ''total_value'') = JNum t"
    by (simp_all add: get_prop_def m cells[symmetric])
  have support: "normalizeSupport pf (spec_mapped_cell pf row (str ''support_coverage'')) =
       Some (get_prop n (str ''support_coverage''))"
    using s(1) by (simp add: vals cells)
  have qty: "normalizeNumber pf (spec_mapped_cell pf row (str ''qty'')) = Some (get_prop n (str ''qty''))"
    using q(1) by (simp add: vals cells)
  have total: "normalizeNumber pf (spec_mapped_cell pf row (str ''total_value'')) =
       Some (get_prop n (str ''total_value''))"
    using t(1) by (simp add: vals cells)
  have s_absent: "s = JStr (str ''-'')"
    if "spec_mapped_cell pf row (str ''support_coverage'') = JUndefined"
    using that s(1) by (simp add: cells normalizeSupport_absent)
  have q_absent: "q = Fin 0" if "spec_mapped_cell pf row (str ''qty'') = JUndefined"
    using that q(1) by (simp add: cells normalizeNumber_absent)
  have t_absent: "t = Fin 0" if "spec_mapped_cell pf row (str ''total_value'') = JUndefined"
    using that t(1) by (simp add: cells normalizeNumber_absent)
  have coerced: "\<forall>f \<in> {str ''support_coverage'', str ''ship_date'', str ''end_of_sale'',
             str ''last_day_support''}.
        truthy (get_prop n f) \<and>
        (spec_mapped_cell pf row f = JUndefined \<longrightarrow> get_prop n f = JStr (str ''-''))"
    using s(2) s_absent by (simp add: vals formatDate_truthy formatDate_absent)
  have numbers: "\<forall>f \<in> {str ''qty'', str ''total_value''}.
        (\<exists>x. get_prop n f = JNum x \<and> x \<noteq> NaN) \<and>
        (spec_mapped_cell pf row f = JUndefined \<longrightarrow> get_prop n f = JNum (Fin 0))"
    using q(2) t(2) q_absent t_absent by (simp add: vals)
  have other: "(map_of n f \<noteq> None) = (\<exists>k \<in> set (map fst row). resolve_key pf k = f) \<and>
        get_prop n f = spec_mapped_cell pf row f"
    if "f \<in> {str ''id'', str ''mfg'', str ''category'', str ''asset_type'', str ''type'',
             str ''product_id'', str ''description''}" for f
  proof -
    have eq: "map_of n f = map_of n0 f"
      using that by (auto simp: m)
    have np: "f \<noteq> str ''__proto__''" using that by auto
    have same: "get_prop n f = get_prop n0 f" by (simp add: get_prop_def eq)
    have dom: "(map_of n0 f \<noteq> None) = (\<exists>k \<in> set (map fst row). resolve_key pf k = f)"
      unfolding n0_def using np by (rule map_keys_dom)
    show ?thesis
    proof (rule conjI)
      show "(map_of n f \<noteq> None) = (\<exists>k \<in> set (map fst row). resolve_key pf k = f)"
        unfolding eq by (rule dom)
      show "get_prop n f = spec_mapped_cell pf row f"
        unfolding same using np by (rule cell)
    qed
  qed
  show ?thesis
  proof (intro exI[of _ n] conjI)
    show "normalizeRow pf (Row row) = Some n" by (rule run)
    show "normalizeSupport pf (spec_mapped_cell pf row (str ''support_coverage'')) =
       Some (get_prop n (str ''support_coverage''))" by (rule support)
    show "get_prop n (str ''ship_date'') = formatDate pf (spec_mapped_cell pf row (str ''ship_date''))"
      by (rule vals)
    show "get_prop n (str ''end_of_sale'') =
       formatDate pf (spec_mapped_cell pf row (str ''end_of_sale''))" by (rule vals)
    show "get_prop n (str ''last_day_support'') =
       formatDate pf (spec_mapped_cell pf row (str ''last_day_support''))" by (rule vals)
    show "normalizeNumber pf (spec_mapped_cell pf row (str ''qty'')) = Some (get_prop n (str ''qty''))"
      by (rule qty)
    show "normalizeNumber pf (spec_mapped_cell pf row (str ''total_value'')) =
       Some (get_prop n (str ''total_value''))" by (rule total)
    show "\<forall>f \<in> {str ''support_coverage'', str ''ship_date'', str ''end_of_sale'',
             str ''last_day_support''}.
        truthy (get_prop n f) \<and>
        (spec_mapped_cell pf row f = JUndefined \<longrightarrow> get_prop n f = JStr (str ''-''))"
      by (rule coerced)
    show "\<forall>f \<in> {str ''qty'', str ''total_value''}.
        (\<exists>x. get_prop n f = JNum x \<and> x \<noteq> NaN) \<and>
        (spec_mapped_cell pf row f = JUndefined \<longrightarrow> get_prop n f = JNum (Fin 0))"
      by (rule numbers)
    show "\<forall>f \<in> {str ''id'', str ''mfg'', str ''category'', str ''asset_type'', str ''type'',
             str ''product_id'', str ''description''}.
        (map_of n f \<noteq> None) = (\<exists>k \<in> set (map fst row). resolve_key pf k = f) \<and>
        get_prop n f = spec_mapped_cell pf row f"
      by (intro ballI) (rule other)
  qed
qed

lemma Vendor_row:
  "resolve_key ref_platform (str ''Vendor'') = str ''mfg'' \<and>
   spec_mapped_cell ref_platform [(str ''Vendor'', JStr (str ''Cisco''))] (str ''mfg'') =
     JStr (str ''Cisco'') \<and>
   spec_mapped_cell ref_platform [(str ''Vendor'', JStr (str ''Cisco''))] (str ''qty'') =
     JUndefined"
  by code_simp

theorem normalizeRow_populated_fields_witness:
  "\<exists>n. normalizeRow ref_platform (Row [(str ''Vendor'', JStr (str ''Cisco''))]) = Some n \<and>
       get_prop n (str ''mfg'') = JStr (str ''Cisco'') \<and>
       get_prop n (str ''qty'') = JNum (Fin 0) \<and>
       map_of n (str ''category'') = None"
  using normalizeRow_populated_fields [of ref_platform "[(str ''Vendor'', JStr (str ''Cisco''))]"]
  by (auto simp: Vendor_row)

text \<open>
  A header with a no-break space, U+00A0, between its words resolves as the code resolves
  it: no variation of the table has that character, and the cleaning step replaces it,
  as white space, with an underscore.
\<close>

lemma resolve_key_no_break_space:
  "resolve_key ref_platform (str ''Asset'' @ [0xA0] @ str ''Type'') = str ''asset_type''"
  by code_simp

text \<open>
  The claim as stated fails on the empty row: the record has the six coerced fields and
  no \<open>mfg\<close> (nor any other of the seven remaining canonical fields).
\<close>

theorem normalizeRow_empty_row_counterexample:
  "normalizeRow ref_platform (Row []) =
     Some [(str ''support_coverage'', JStr (str ''-'')), (str ''ship_date'', JStr (str ''-'')),
           (str ''end_of_sale'', JStr (str ''-'')), (str ''last_day_support'', JStr (str ''-'')),
           (str ''qty'', JNum (Fin 0)), (str ''total_value'', JNum (Fin 0))] \<and>
   map_of [(str ''support_coverage'', JStr (str ''-'')), (str ''ship_date'', JStr (str ''-'')),
           (str ''end_of_sale'', JStr (str ''-'')), (str ''last_day_support'', JStr (str ''-'')),
           (str ''qty'', JNum (Fin 0)), (str ''total_value'', JNum (Fin 0))] (str ''mfg'') = None"
  by code_simp

section \<open>The dataset normalizer\<close>



section \<open>The date coercer\<close>

lemma formatDate_sentinel:
  "\<not> truthy v \<or> v = JStr (str ''-'') \<or> v = JStr (str ''N/A'') \<or> v = JStr (str ''n/a'') \<Longrightarrow>
   formatDate pf v = JStr (str ''-'')"
  by (auto simp: formatDate_def)

lemma formatDate_unparsable:
  "truthy v \<Longrightarrow> v \<noteq> JStr (str ''-'') \<Longrightarrow> v \<noteq> JStr (str ''N/A'') \<Longrightarrow> v \<noteq> JStr (str ''n/a'') \<Longrightarrow>
   newDate pf v = None \<Longrightarrow> formatDate pf v = v"
  by (simp add: formatDate_def)

lemma formatDate_parsed:
  "truthy v \<Longrightarrow> v \<noteq> JStr (str ''-'') \<Longrightarrow> v \<noteq> JStr (str ''N/A'') \<Longrightarrow> v \<noteq> JStr (str ''n/a'') \<Longrightarrow>
   newDate pf v = Some t \<Longrightarrow> civil_from_days (t div msPerDay) = (y, m, d) \<Longrightarrow>
   formatDate pf v = JStr (iso_year y @ (str ''-'') @ pad 2 (nat m) @ (str ''-'') @ pad 2 (nat d))"
  by (simp add: formatDate_def iso_date_part)

text \<open>
  C9, as amended. The date coercer returns the sentinel \<open>-\<close> for every falsy input
  (the empty string, an absent value, and also 0, \<open>NaN\<close> and \<open>false\<close>) and for
  \<open>-\<close>, \<open>N/A\<close>, \<open>n/a\<close>. Every other input that \<open>new Date\<close> rejects is
  returned unchanged. Every other input that \<open>new Date\<close> accepts becomes the UTC
  calendar date of its time value, written year, month and day with \<open>-\<close> between
  them, month and day padded to two digits and the year to four digits when it lies
  from 0 to 9999 (outside, the year has a sign and six digits).
\<close>

theorem formatDate_amended:
  "(\<not> truthy v \<or> v = JStr (str ''-'') \<or> v = JStr (str ''N/A'') \<or> v = JStr (str ''n/a'') \<longrightarrow>
      formatDate pf v = JStr (str ''-'')) \<and>
   (truthy v \<and> v \<noteq> JStr (str ''-'') \<and> v \<noteq> JStr (str ''N/A'') \<and> v \<noteq> JStr (str ''n/a'') \<longrightarrow>
      (newDate pf v = None \<longrightarrow> formatDate pf v = v) \<and>
      (\<forall>t y m d. newDate pf v = Some t \<and> civil_from_days (t div msPerDay) = (y, m, d) \<longrightarrow>
         formatDate pf v = JStr (iso_year y @ (str ''-'') @ pad 2 (nat m) @ (str ''-'') @ pad 2 (nat d)) \<and>
         (0 \<le> y \<and> y \<le> 9999 \<longrightarrow> iso_year y = pad 4 (nat y))))"
proof (intro conjI impI allI)
  assume "\<not> truthy v \<or> v = JStr (str ''-'') \<or> v = JStr (str ''N/A'') \<or> v = JStr (str ''n/a'')"
  then show "formatDate pf v = JStr (str ''-'')" by (rule formatDate_sentinel)
next
  assume "truthy v \<and> v \<noteq> JStr (str ''-'') \<and> v \<noteq> JStr (str ''N/A'') \<and> v \<noteq> JStr (str ''n/a'')"
    and "newDate pf v = None"
  then show "formatDate pf v = v" by (simp add: formatDate_unparsable)
next
  fix t y m d
  assume "truthy v \<and> v \<noteq> JStr (str ''-'') \<and> v \<noteq> JStr (str ''N/A'') \<and> v \<noteq> JStr (str ''n/a'')"
    and "newDate pf v = Some t \<and> civil_from_days (t div msPerDay) = (y, m, d)"
  then show "formatDate pf v = JStr (iso_year y @ (str ''-'') @ pad 2 (nat m) @ (str ''-'') @ pad 2 (nat d))"
    by (simp add: formatDate_parsed)
next
  fix y :: int
  assume "0 \<le> y \<and> y \<le> 9999"
  then show "iso_year y = pad 4 (nat y)" by (simp add: iso_year_def)
qed

lemma date_2020: 
  "Date_parse_iso (str ''2020-01-01'') = Some 1577836800000 \<and>
   civil_from_days (1577836800000 div msPerDay) = (2020, 1, 1) \<and>
   iso_year 2020 @ (str ''-'') @ pad 2 (nat 1) @ (str ''-'') @ pad 2 (nat 1) = (str ''2020-01-01'')"
  by code_simp

theorem formatDate_amended_witness:
  "formatDate ref_platform (JStr (str ''2020-01-01'')) = JStr (str ''2020-01-01'') \<and>
   formatDate ref_platform JNull = JStr (str ''-'')"
proof -
  have "newDate ref_platform (JStr (str ''2020-01-01'')) = Some 1577836800000"
    using date_2020 by (simp add: ref_platform_def)
  then show ?thesis
    using formatDate_amended [of "JStr (str ''2020-01-01'')" ref_platform]
      formatDate_amended [of JNull ref_platform] date_2020
    by simp
qed

lemma iso_epoch: "toISOString 0 = (str ''1970-01-01T00:00:00.000Z'')"
  by code_simp

text \<open>
  The claim as stated fails on the number 0, which is not one of the listed sentinels and
  is a valid date, the epoch: the coercer returns the sentinel for it, since 0 is falsy.
\<close>

theorem formatDate_zero_counterexample:
  "formatDate ref_platform (JNum (Fin 0)) = JStr (str ''-'') \<and>
   newDate ref_platform (JNum (Fin 0)) = Some 0 \<and>
   toISOString 0 = (str ''1970-01-01T00:00:00.000Z'')"
  by (simp add: formatDate_def iso_epoch)

section \<open>The numeric coercer\<close>

lemma pow10_pos: "0 < pow10 e"
  by (simp add: pow10_def)

lemma pow10_nonneg: "0 \<le> pow10 e"
  using pow10_pos[of e] by simp

text \<open>
  The shape of a \<open>parseFloat\<close> result: \<open>NaN\<close>, an infinity of the sign of the text,
  or the rounding of a value of the sign of the text.
\<close>

lemma parseFloat_shape:
  "parseFloat_str pf s = NaN \<or>
   parseFloat_str pf s = (if startsWith (trimStart s) (str ''-'') then NegInf else PosInf) \<or>
   (\<exists>r. parseFloat_str pf s = To_double pf r \<and>
        (if startsWith (trimStart s) (str ''-'') then r \<le> 0 else 0 \<le> r))"
proof -
  define neg where "neg = startsWith (trimStart s) (str ''-'')"
  define s1 where "s1 = (if startsWith (trimStart s) (str ''+'') \<or> startsWith (trimStart s) (str ''-'')
                         then tl (trimStart s) else trimStart s)"
  define ip where "ip = takeWhile is_digit s1"
  define r1 where "r1 = dropWhile is_digit s1"
  define fp where "fp = (if startsWith r1 (str ''.'') then takeWhile is_digit (tl r1) else [])"
  define r2 where "r2 = (if startsWith r1 (str ''.'') then dropWhile is_digit (tl r1) else r1)"
  define mag :: rat where
    "mag = (of_nat (nat_of_digits 10 (ip @ fp)) / 10 ^ length fp) * pow10 (exponent_part r2)"
  define r :: rat where
    "r = (if neg then - 1 else 1) * (of_nat (nat_of_digits 10 (ip @ fp)) / 10 ^ length fp)
           * pow10 (exponent_part r2)"
  have eq: "parseFloat_str pf s =
      (if startsWith s1 (str ''Infinity'') then (if neg then NegInf else PosInf)
       else if ip = [] \<and> fp = [] then NaN else To_double pf r)"
    unfolding parseFloat_str_def Let_def r_def r2_def fp_def r1_def ip_def s1_def neg_def
    by (rule refl)
  have "0 \<le> mag"
    by (simp add: mag_def pow10_nonneg)
  moreover have "r = (if neg then - mag else mag)"
    by (simp add: r_def mag_def)
  ultimately have sign: "if neg then r \<le> 0 else 0 \<le> r"
    by simp
  show ?thesis
  proof (cases "startsWith s1 (str ''Infinity'')")
    case True
    then show ?thesis by (simp add: eq neg_def)
  next
    case inf: False
    show ?thesis
    proof (cases "ip = [] \<and> fp = []")
      case True
      with inf show ?thesis by (simp add: eq)
    next
      case False
      with inf have "parseFloat_str pf s = To_double pf r" by (auto simp: eq)
      with sign show ?thesis unfolding neg_def by blast
    qed
  qed
qed

lemma parseFloat_negative:
  assumes "rounds_to_nearest pf" and "is_negative (parseFloat_str pf s)"
  shows "startsWith (trimStart s) (str ''-'')"
proof (rule ccontr)
  assume pos: "\<not> startsWith (trimStart s) (str ''-'')"
  from assms(1) have law: "\<And>r. is_negative (To_double pf r) \<Longrightarrow> r < 0"
    by (simp add: rounds_to_nearest_def)
  from parseFloat_shape[of pf s] pos
  consider "parseFloat_str pf s = NaN" | "parseFloat_str pf s = PosInf"
    | r where "parseFloat_str pf s = To_double pf r" "0 \<le> r"
    by auto
  then show False
  proof cases
    case 1
    with assms(2) show False by (simp add: is_negative_def)
  next
    case 2
    with assms(2) show False by (simp add: is_negative_def)
  next
    case 3
    with assms(2) law[of r] show False by simp
  qed
qed

lemma parseFloat_minus:
  assumes "rounds_to_nearest pf" and "startsWith (trimStart s) (str ''-'')"
    and "parseFloat_str pf s \<noteq> NaN" and "parseFloat_str pf s \<noteq> Fin 0"
  shows "is_negative (parseFloat_str pf s)"
proof -
  from assms(1) have law: "\<And>r. is_positive (To_double pf r) \<Longrightarrow> 0 < r"
    by (simp add: rounds_to_nearest_def)
  from parseFloat_shape[of pf s] assms(2,3)
  consider "parseFloat_str pf s = NegInf"
    | r where "parseFloat_str pf s = To_double pf r" "r \<le> 0"
    by auto
  then show ?thesis
  proof cases
    case 1
    then show ?thesis by (simp add: is_negative_def)
  next
    case 2
    with law[of r] have "\<not> is_positive (parseFloat_str pf s)" by auto
    with assms(3,4) show ?thesis
      by (cases "parseFloat_str pf s") (auto simp: is_negative_def is_positive_def)
  qed
qed

lemma dropWhile_rev_snoc:
  assumes "\<not> P c"
  shows "\<exists>ys. dropWhile P (rev cs @ [c]) = ys @ [c]"
proof (cases "\<forall>x \<in> set (rev cs). P x")
  case True
  then have "dropWhile P (rev cs @ [c]) = dropWhile P [c]"
    by (intro dropWhile_append2) blast
  with assms show ?thesis by simp
next
  case False
  then obtain x where "x \<in> set (rev cs)" "\<not> P x" by blast
  then have "dropWhile P (rev cs @ [c]) = dropWhile P (rev cs) @ [c]"
    by (rule dropWhile_append1)
  then show ?thesis by blast
qed

lemma trimStart_trim: "trimStart (trim s) = trim s"
proof -
  define t where "t = dropWhile is_ws s"
  have "dropWhile is_ws (rev (dropWhile is_ws (rev t))) = rev (dropWhile is_ws (rev t))"
  proof (cases t)
    case Nil
    then show ?thesis by simp
  next
    case (Cons c cs)
    then have "hd (dropWhile is_ws s) = c" "dropWhile is_ws s \<noteq> []"
      by (simp_all add: t_def)
    then have c: "\<not> is_ws c" using hd_dropWhile[of is_ws s] by simp
    obtain ys where "dropWhile is_ws (rev cs @ [c]) = ys @ [c]"
      using c dropWhile_rev_snoc[of is_ws c cs] by blast
    then have "rev (dropWhile is_ws (rev t)) = c # rev ys" using Cons by simp
    then show ?thesis using c by simp
  qed
  then show ?thesis by (simp add: trim_def trimStart_def t_def)
qed

lemma remove_currency_idem: "remove_currency (remove_currency s) = remove_currency s"
  by (simp add: remove_currency_def)

lemma parseFloat_sentinels:
  "parseFloat_str pf (trim []) = NaN \<and> parseFloat_str pf (trim (str ''-'')) = NaN \<and>
   parseFloat_str pf (trim (str ''N/A'')) = NaN \<and> parseFloat_str pf (trim (str ''n/a'')) = NaN"
  by (simp add: parseFloat_str_def trim_def trimStart_def is_ws_def startsWith_def is_digit_def
      str_def code_def Let_def)

lemma remove_currency_sentinels:
  "remove_currency [] = []" "remove_currency (str ''-'') = str ''-''"
  "remove_currency (str ''N/A'') = str ''N/A''" "remove_currency (str ''n/a'') = str ''n/a''"
  by (simp_all add: remove_currency_def str_def code_def)

lemma normalizeNumber_eq:
  "normalizeNumber pf v =
     Some (JNum (if \<not> truthy v \<or> v = JStr (str ''-'') \<or> v = JStr (str ''N/A'')
                    \<or> v = JStr (str ''n/a'')
                    \<or> parseFloat_str pf (trim (remove_currency (ToString pf v))) = NaN
                 then Fin 0
                 else parseFloat_str pf (trim (remove_currency (ToString pf v)))))"
proof (cases "\<not> truthy v \<or> v = JStr (str ''-'') \<or> v = JStr (str ''N/A'') \<or> v = JStr (str ''n/a'')")
  case True
  then show ?thesis by (auto simp: normalizeNumber_def)
next
  case False
  then have "toString pf v = Some (ToString pf v)" by (simp add: toString_truthy)
  with False show ?thesis by (simp add: normalizeNumber_def Let_def)
qed

lemma normalizeNumber_remove_currency:
  "normalizeNumber pf (JStr s) = normalizeNumber pf (JStr (remove_currency s))"
proof -
  have a: "parseFloat_str pf (trim (remove_currency s)) = NaN"
    if "remove_currency s \<in> {[], str ''-'', str ''N/A'', str ''n/a''}"
    using that parseFloat_sentinels[of pf] by auto
  have b: "remove_currency s = s" if "s \<in> {[], str ''-'', str ''N/A'', str ''n/a''}"
    using that remove_currency_sentinels by auto
  show ?thesis
  proof (cases "s \<in> {[], str ''-'', str ''N/A'', str ''n/a''}")
    case True
    then show ?thesis by (simp only: b)
  next
    case False
    show ?thesis
    proof (cases "remove_currency s \<in> {[], str ''-'', str ''N/A'', str ''n/a''}")
      case True
      with a have "parseFloat_str pf (trim (remove_currency s)) = NaN" by simp
      then show ?thesis using True
        by (auto simp: normalizeNumber_eq remove_currency_idem)
    next
      case r: False
      with False show ?thesis
        by (simp add: normalizeNumber_eq remove_currency_idem)
    qed
  qed
qed

lemma parseFloat_1234_50:
  "parseFloat_str pf (trim (remove_currency (str ''$1,234.50''))) = To_double pf (2469 * pow2 (- 1))"
  by (simp add: parseFloat_str_def trim_def remove_currency_def trimStart_def is_ws_def
      startsWith_def is_digit_def nat_of_digits_def digit_val_def exponent_part_def pow10_def
      pow2_def str_def code_def Let_def)

lemma parseFloat_minus_5:
  "parseFloat_str pf (trim (remove_currency (str ''-5''))) = To_double pf (- 5 * pow2 0)"
  by (simp add: parseFloat_str_def trim_def remove_currency_def trimStart_def is_ws_def
      startsWith_def is_digit_def nat_of_digits_def digit_val_def exponent_part_def pow10_def
      pow2_def str_def code_def Let_def)

lemma parseFloat_abc:
  "parseFloat_str pf (trim (remove_currency (str ''abc''))) = NaN"
  by (simp add: parseFloat_str_def trim_def remove_currency_def trimStart_def is_ws_def
      startsWith_def is_digit_def str_def code_def Let_def)

lemma To_double_dyadic:
  assumes "rounds_to_nearest pf" "\<bar>m\<bar> < 2 ^ 53" "- 1074 \<le> e" "e \<le> 971"
  shows "To_double pf (of_int m * pow2 e) = Fin (of_int m * pow2 e)"
  using assms unfolding rounds_to_nearest_def by blast

text \<open>The reference platform, which does not round at all, obeys the laws of rounding.\<close>

lemma To_double_ref_platform: "To_double ref_platform r = Fin r"
  by (simp add: ref_platform_def)

lemma rounds_to_nearest_ref_platform: "rounds_to_nearest ref_platform"
  by (simp add: rounds_to_nearest_def ref_platform_def is_negative_def is_positive_def)

text \<open>
  A no-break space before the digits is white space to \<open>trim\<close> and to \<open>parseFloat\<close>,
  and a power of ten beyond the doubles is left to the rounding of the platform, which
  gives \<open>Infinity\<close> for it.
\<close>

lemma normalizeNumber_no_break_space:
  "rounds_to_nearest pf \<Longrightarrow>
   normalizeNumber pf (JStr ([0xA0] @ str ''-5'')) = Some (JNum (Fin (- 5)))"
proof -
  assume laws: "rounds_to_nearest pf"
  have "parseFloat_str pf (trim (remove_currency ([0xA0] @ str ''-5''))) =
          To_double pf (of_int (- 5) * pow2 0)"
    by (simp add: parseFloat_str_def trim_def remove_currency_def trimStart_def is_ws_def
      startsWith_def is_digit_def nat_of_digits_def digit_val_def exponent_part_def pow10_def
      pow2_def str_def code_def Let_def)
  also have "\<dots> = Fin (of_int (- 5) * pow2 0)"
    using laws by (rule To_double_dyadic) simp_all
  finally show ?thesis
    by (simp add: normalizeNumber_eq pow2_def str_def code_def)
qed

lemma normalizeNumber_overflow:
  "To_double pf (10 ^ 400) = PosInf \<Longrightarrow>
   normalizeNumber pf (JStr (str ''1e400'')) = Some (JNum PosInf)"
proof -
  assume inf: "To_double pf (10 ^ 400) = PosInf"
  have "parseFloat_str pf (trim (remove_currency (str ''1e400''))) = To_double pf (10 ^ 400)"
    by (simp add: parseFloat_str_def trim_def remove_currency_def trimStart_def is_ws_def
      startsWith_def is_digit_def nat_of_digits_def digit_val_def exponent_part_def pow10_def
      str_def code_def Let_def)
  with inf show ?thesis
    by (simp add: normalizeNumber_eq str_def code_def)
qed

text \<open>
  C4, as amended. For every input the numeric coercer returns a number that is not
  \<open>NaN\<close>, and never throws. A falsy input and the sentinels \<open>-\<close>, \<open>N/A\<close>,
  \<open>n/a\<close> give 0, and so does every input whose cleaned text (the string of the
  input with every \<open>$\<close> and \<open>,\<close> removed, then trimmed) has no numeric prefix.
  Every other input gives what \<open>parseFloat\<close> reads from the cleaned text. A string
  and the same string without \<open>$\<close> and \<open>,\<close> have the same result. The result
  is not always non-negative: where numbers are rounded to the nearest double, it is
  negative exactly when the cleaned text starts with a minus sign and the result is not
  zero; \<open>$1,234.50\<close> gives 1234.5 and \<open>-5\<close> gives \<open>-5\<close>.
\<close>

theorem normalizeNumber_amended:
  "normalizeNumber pf v =
     Some (JNum (if \<not> truthy v \<or> v = JStr (str ''-'') \<or> v = JStr (str ''N/A'')
                    \<or> v = JStr (str ''n/a'')
                    \<or> parseFloat_str pf (trim (remove_currency (ToString pf v))) = NaN
                 then Fin 0
                 else parseFloat_str pf (trim (remove_currency (ToString pf v))))) \<and>
   (\<exists>x. normalizeNumber pf v = Some (JNum x) \<and> x \<noteq> NaN) \<and>
   (\<not> truthy v \<or> v = JStr (str ''-'') \<or> v = JStr (str ''N/A'') \<or> v = JStr (str ''n/a'') \<longrightarrow>
      normalizeNumber pf v = Some (JNum (Fin 0))) \<and>
   (parseFloat_str pf (trim (remove_currency (ToString pf v))) = NaN \<longrightarrow>
      normalizeNumber pf v = Some (JNum (Fin 0))) \<and>
   normalizeNumber pf (JStr s) = normalizeNumber pf (JStr (remove_currency s)) \<and>
   (rounds_to_nearest pf \<longrightarrow>
      (\<forall>x. normalizeNumber pf v = Some (JNum x) \<longrightarrow>
         is_negative x =
           (startsWith (trim (remove_currency (ToString pf v))) (str ''-'') \<and> x \<noteq> Fin 0)) \<and>
      normalizeNumber pf (JStr (str ''$1,234.50'')) = Some (JNum (Fin (2469 / 2))) \<and>
      normalizeNumber pf (JStr (str ''-5'')) = Some (JNum (Fin (- 5))))"
proof -
  let ?c = "trim (remove_currency (ToString pf v))"
  let ?sentinel = "\<not> truthy v \<or> v = JStr (str ''-'') \<or> v = JStr (str ''N/A'') \<or> v = JStr (str ''n/a'')"
  have total: "\<exists>x. normalizeNumber pf v = Some (JNum x) \<and> x \<noteq> NaN"
    by (rule normalizeNumber_total)
  have sentinel: "normalizeNumber pf v = Some (JNum (Fin 0))" if "?sentinel"
    using that by (auto simp: normalizeNumber_eq)
  have unparsable: "normalizeNumber pf v = Some (JNum (Fin 0))"
    if "parseFloat_str pf ?c = NaN"
    using that by (simp add: normalizeNumber_eq)
  have sign: "is_negative x = (startsWith ?c (str ''-'') \<and> x \<noteq> Fin 0)"
    if laws: "rounds_to_nearest pf" and run: "normalizeNumber pf v = Some (JNum x)" for x
  proof (cases "?sentinel \<or> parseFloat_str pf ?c = NaN")
    case True
    then have "normalizeNumber pf v = Some (JNum (Fin 0))"
      using sentinel unparsable by blast
    with run have "x = Fin 0" by simp
    then show ?thesis by (simp add: is_negative_def)
  next
    case False
    then have "normalizeNumber pf v = Some (JNum (parseFloat_str pf ?c))"
      by (simp add: normalizeNumber_eq)
    with run have x: "x = parseFloat_str pf ?c" by simp
    from False have nan: "parseFloat_str pf ?c \<noteq> NaN" by simp
    show ?thesis
    proof
      assume neg: "is_negative x"
      then have "startsWith (trimStart ?c) (str ''-'')"
        using laws unfolding x by (intro parseFloat_negative)
      moreover from neg have "x \<noteq> Fin 0" by (auto simp: is_negative_def)
      ultimately show "startsWith ?c (str ''-'') \<and> x \<noteq> Fin 0"
        by (simp add: trimStart_trim)
    next
      assume "startsWith ?c (str ''-'') \<and> x \<noteq> Fin 0"
      then have "startsWith (trimStart ?c) (str ''-'')" "parseFloat_str pf ?c \<noteq> Fin 0"
        by (simp_all add: trimStart_trim x)
      with laws nan show "is_negative x"
        unfolding x by (intro parseFloat_minus)
    qed
  qed
  have ex1: "normalizeNumber pf (JStr (str ''$1,234.50'')) = Some (JNum (Fin (2469 / 2)))"
    if laws: "rounds_to_nearest pf"
  proof -
    have "To_double pf (of_int 2469 * pow2 (- 1)) = Fin (of_int 2469 * pow2 (- 1))"
      using laws by (rule To_double_dyadic) simp_all
    then have "parseFloat_str pf (trim (remove_currency (str ''$1,234.50''))) = Fin (2469 / 2)"
      by (simp add: parseFloat_1234_50 pow2_def)
    then show ?thesis by (simp add: normalizeNumber_eq str_def code_def)
  qed
  have ex2: "normalizeNumber pf (JStr (str ''-5'')) = Some (JNum (Fin (- 5)))"
    if laws: "rounds_to_nearest pf"
  proof -
    have "To_double pf (of_int (- 5) * pow2 0) = Fin (of_int (- 5) * pow2 0)"
      using laws by (rule To_double_dyadic) simp_all
    then have "parseFloat_str pf (trim (remove_currency (str ''-5''))) = Fin (- 5)"
      by (simp add: parseFloat_minus_5 pow2_def)
    then show ?thesis by (simp add: normalizeNumber_eq str_def code_def)
  qed
  show ?thesis
  proof (intro conjI allI impI)
    show "normalizeNumber pf v =
     Some (JNum (if \<not> truthy v \<or> v = JStr (str ''-'') \<or> v = JStr (str ''N/A'')
                    \<or> v = JStr (str ''n/a'')
                    \<or> parseFloat_str pf (trim (remove_currency (ToString pf v))) = NaN
                 then Fin 0
                 else parseFloat_str pf (trim (remove_currency (ToString pf v)))))"
      by (rule normalizeNumber_eq)
  next
    show "\<exists>x. normalizeNumber pf v = Some (JNum x) \<and> x \<noteq> NaN" by (rule total)
  next
    assume "?sentinel"
    then show "normalizeNumber pf v = Some (JNum (Fin 0))" by (rule sentinel)
  next
    assume "parseFloat_str pf ?c = NaN"
    then show "normalizeNumber pf v = Some (JNum (Fin 0))" by (rule unparsable)
  next
    show "normalizeNumber pf (JStr s) = normalizeNumber pf (JStr (remove_currency s))"
      by (rule normalizeNumber_remove_currency)
  next
    fix x assume "rounds_to_nearest pf" "normalizeNumber pf v = Some (JNum x)"
    then show "is_negative x = (startsWith ?c (str ''-'') \<and> x \<noteq> Fin 0)" by (rule sign)
  next
    assume "rounds_to_nearest pf"
    then show "normalizeNumber pf (JStr (str ''$1,234.50'')) = Some (JNum (Fin (2469 / 2)))"
      by (rule ex1)
  next
    assume "rounds_to_nearest pf"
    then show "normalizeNumber pf (JStr (str ''-5'')) = Some (JNum (Fin (- 5)))"
      by (rule ex2)
  qed
qed

theorem normalizeNumber_amended_witness:
  "normalizeNumber ref_platform (JStr (str ''N/A'')) = Some (JNum (Fin 0)) \<and>
   normalizeNumber ref_platform (JStr (str ''abc'')) = Some (JNum (Fin 0)) \<and>
   normalizeNumber ref_platform (JStr (str ''$1,234.50'')) = Some (JNum (Fin (2469 / 2))) \<and>
   normalizeNumber ref_platform (JStr (str ''-5'')) = Some (JNum (Fin (- 5)))"
proof -
  have abc: "normalizeNumber ref_platform (JStr (str ''abc'')) = Some (JNum (Fin 0))"
    using normalizeNumber_amended [of ref_platform "JStr (str ''abc'')"] parseFloat_abc
    by simp
  show ?thesis
    using normalizeNumber_amended [of ref_platform "JStr (str ''N/A'')"]
      rounds_to_nearest_ref_platform abc
    by simp
qed

text \<open>
  The claim as stated, that the result is never negative, fails on the cell \<open>-5\<close>.
\<close>

theorem normalizeNumber_negative_counterexample:
  "normalizeNumber ref_platform (JStr (str ''-5'')) = Some (JNum (Fin (- 5))) \<and>
   is_negative (Fin (- 5))"
proof -
  have "parseFloat_str ref_platform (trim (remove_currency (str ''-5''))) = Fin (- 5)"
    by (simp add: parseFloat_minus_5 To_double_ref_platform pow2_def)
  then have "normalizeNumber ref_platform (JStr (str ''-5'')) = Some (JNum (Fin (- 5)))"
    by (simp add: normalizeNumber_eq str_def code_def)
  then show ?thesis by (simp add: is_negative_def)
qed

section \<open>Field completeness\<close>

text \<open>
  On a record set that is not empty every completeness value is an integer from 0 to 100,
  where numbers are rounded to the nearest double.
\<close>

lemma To_double_between:
  assumes "rounds_to_nearest pf" "\<bar>a\<bar> \<le> 2 ^ 53" "\<bar>b\<bar> \<le> 2 ^ 53" "of_int a \<le> r" "r \<le> of_int b"
  shows "\<exists>x. To_double pf r = Fin x \<and> of_int a \<le> x \<and> x \<le> of_int b"
  using assms unfolding rounds_to_nearest_def by blast

lemma Math_round_percent:
  assumes laws: "rounds_to_nearest pf" and "a \<le> b" "0 < b"
  shows "\<exists>k::int. Math_round (js_times pf (js_div pf (Fin (of_nat a)) (Fin (of_nat b))) 100) =
             Fin (of_int k) \<and> 0 \<le> k \<and> k \<le> 100"
proof -
  have "of_nat a / (of_nat b :: rat) \<le> 1" using assms by (simp add: divide_le_eq_1)
  then have "of_int 0 \<le> of_nat a / (of_nat b :: rat)" "of_nat a / (of_nat b :: rat) \<le> of_int 1"
    by simp_all
  with laws obtain x where x: "To_double pf (of_nat a / of_nat b) = Fin x" "0 \<le> x" "x \<le> 1"
    using To_double_between[of pf 0 1 "of_nat a / of_nat b"] by auto
  have "x * 100 \<le> 1 * 100" using x(3) by (intro mult_right_mono) simp_all
  then have "of_int 0 \<le> x * 100" "x * 100 \<le> of_int 100" using x(2) by simp_all
  with laws obtain y where y: "To_double pf (x * 100) = Fin y" "0 \<le> y" "y \<le> 100"
    using To_double_between[of pf 0 100 "x * 100"] by auto
  have r: "Math_round (js_times pf (js_div pf (Fin (of_nat a)) (Fin (of_nat b))) 100) =
             Fin (of_int \<lfloor>y + 1 / 2\<rfloor>)"
    using assms(3) x(1) y(1) by (simp add: js_div_def)
  have "0 \<le> \<lfloor>y + 1 / 2\<rfloor>" using y(2) by simp
  moreover have "\<lfloor>y + 1 / 2\<rfloor> \<le> 100" using y(3) by (simp add: floor_le_iff)
  ultimately show ?thesis using r by blast
qed

lemma fieldCompleteness_bounds:
  assumes "rounds_to_nearest pf" and "items \<noteq> []"
    and "(field, p) \<in> set (fieldCompleteness pf items)"
  shows "\<exists>k::int. p = Fin (of_int k) \<and> 0 \<le> k \<and> k \<le> 100"
proof -
  have "filled items field \<le> length items" for field
    by (simp add: filled_def)
  moreover have "0 < length items" using assms(2) by simp
  ultimately show ?thesis
    using assms(3) Math_round_percent[OF assms(1), of "filled items field" "length items"]
    by (auto simp: fieldCompleteness_def)
qed

text \<open>
  C2. Every completeness value is claimed to be an integer from 0 to 100, and 0 for the
  empty record set. On the empty record set the code divides 0 by 0 and rounds the result:
  every completeness value is \<open>NaN\<close>, on every platform. The coverage rate next to it
  in the summary tests for the empty set first and is 0 there.
\<close>

theorem fieldCompleteness_empty_is_NaN:
  "fieldCompleteness pf [] =
     [(str ''mfg'', NaN), (str ''category'', NaN), (str ''product_id'', NaN),
      (str ''description'', NaN), (str ''support_coverage'', NaN), (str ''end_of_sale'', NaN),
      (str ''last_day_support'', NaN), (str ''asset_type'', NaN), (str ''ship_date'', NaN)] \<and>
   supportCoverage pf [] = Fin 0"
  by (simp add: fieldCompleteness_def requiredFields_def filled_def js_div_def
      supportCoverage_def)

theorem fieldCompleteness_empty_witness:
  "map_of (fieldCompleteness ref_platform []) (str ''mfg'') = Some NaN"
  using fieldCompleteness_empty_is_NaN [of ref_platform] by simp

section \<open>Lifecycle counts by category\<close>

text \<open>
  The entry of a category key counts, for each of the three date fields, the items of
  the key whose field passes the test \<open>date_reached\<close>; the items of a key are those
  whose category is strictly equal to the key.
\<close>

lemma lifecycle_foldl:
  "endOfSale (foldl (lifecycle_step pf now) acc xs) =
     endOfSale acc + int (length (filter (\<lambda>item. date_reached pf now (get_prop item (str ''end_of_sale''))) xs)) \<and>
   endOfSWVuln (foldl (lifecycle_step pf now) acc xs) =
     endOfSWVuln acc + int (length (filter (\<lambda>item. date_reached pf now (vulnField item)) xs)) \<and>
   lastDaySupport (foldl (lifecycle_step pf now) acc xs) =
     lastDaySupport acc + int (length (filter (\<lambda>item. date_reached pf now (get_prop item (str ''last_day_support''))) xs)) \<and>
   total (foldl (lifecycle_step pf now) acc xs) = total acc"
  by (induction xs arbitrary: acc) (simp_all add: lifecycle_step_def)

lemma lifecycle_of_counts:
  "endOfSale (lifecycle_of pf now xs) =
     int (length (filter (\<lambda>item. date_reached pf now (get_prop item (str ''end_of_sale''))) xs))"
  "endOfSWVuln (lifecycle_of pf now xs) =
     int (length (filter (\<lambda>item. date_reached pf now (vulnField item)) xs))"
  "lastDaySupport (lifecycle_of pf now xs) =
     int (length (filter (\<lambda>item. date_reached pf now (get_prop item (str ''last_day_support''))) xs))"
  "total (lifecycle_of pf now xs) = int (length xs)"
  by (simp_all add: lifecycle_of_def lifecycle_foldl)

lemma map_of_key_map:
  "map_of (map (\<lambda>k. (k, f k)) ks) c = (if c \<in> set ks then Some (f c) else None)"
  by (induction ks) auto

lemma lifecycleByCategory_entry:
  "map_of (lifecycleByCategory pf now items) c =
     (if c \<in> set (map fst (categoryBreakdown pf items))
      then Some (lifecycle_of pf now (categoryItems items c)) else None)"
  unfolding lifecycleByCategory_def by (rule map_of_key_map)

text \<open>
  C7. A record is claimed to count as expired in \<open>lifecycleByCategory\<close> exactly when
  its date field is present, not the sentinel, a valid date and not after \<open>now\<close>. Take
  one record with the numeric category 5 and \<open>end_of_sale\<close> 2020-01-01, and \<open>now\<close>
  at 2024-01-01. The date passes the test, the total count \<open>totalEndOfSale\<close> counts the
  record, and the category breakdown files it under the key \<open>5\<close>. But
  \<open>lifecycleByCategory\<close> selects the items of a key by strict equality with the key,
  a string, which the number 5 is not: the entry of \<open>5\<close> has no item and counts nothing.
\<close>

theorem lifecycleByCategory_numeric_category:
  "(let now = 1704067200000;
        items = [[((str ''category''), JNum (Fin 5)), ((str ''end_of_sale''), JStr (str ''2020-01-01'')),
                  ((str ''support_coverage''), JStr (str ''-'')), ((str ''ship_date''), JStr (str ''-'')),
                  ((str ''last_day_support''), JStr (str ''-'')), ((str ''qty''), JNum (Fin 0)),
                  ((str ''total_value''), JNum (Fin 0)), ((str ''id''), JNum (Fin 1))]]
    in date_reached ref_platform now (JStr (str ''2020-01-01'')) \<and>
       totalEndOfSale ref_platform now items = 1 \<and>
       categoryBreakdown ref_platform items =
         [((str ''5''), \<lparr> count = 1, quantity = 0, activeCount = 0, expiredCount = 0 \<rparr>)] \<and>
       lifecycleByCategory ref_platform now items =
         [((str ''5''), \<lparr> totalQty = 0, endOfSale = 0, endOfSWVuln = 0, lastDaySupport = 0,
                   total = 0 \<rparr>)])"
  by code_simp

theorem lifecycleByCategory_numeric_category_witness:
  "map (\<lambda>(category, e). endOfSale e)
     (lifecycleByCategory ref_platform 1704067200000
        [[((str ''category''), JNum (Fin 5)), ((str ''end_of_sale''), JStr (str ''2020-01-01'')),
          ((str ''support_coverage''), JStr (str ''-'')), ((str ''ship_date''), JStr (str ''-'')),
          ((str ''last_day_support''), JStr (str ''-'')), ((str ''qty''), JNum (Fin 0)),
          ((str ''total_value''), JNum (Fin 0)), ((str ''id''), JNum (Fin 1))]]) = [0]"
  using lifecycleByCategory_numeric_category by (simp add: Let_def)

text \<open>
  The record of that input is what the dataset normalizer makes of the raw row with the
  cells \<open>Category = 5\<close> and \<open>End of Sale = 2020-01-01\<close>.
\<close>

lemma processData_numeric_category:
  "processData ref_platform
     (Some [Row [((str ''Category''), JNum (Fin 5)), ((str ''End of Sale''), JStr (str ''2020-01-01''))]]) =
   [Normalized [((str ''category''), JNum (Fin 5)), ((str ''end_of_sale''), JStr (str ''2020-01-01'')),
                ((str ''support_coverage''), JStr (str ''-'')), ((str ''ship_date''), JStr (str ''-'')),
                ((str ''last_day_support''), JStr (str ''-'')), ((str ''qty''), JNum (Fin 0)),
                ((str ''total_value''), JNum (Fin 0)), ((str ''id''), JNum (Fin 1))]]"
  by code_simp

text \<open>
  The scenario of the specification, with string categories: of two routers with
  \<open>end_of_sale\<close> 2020-01-01 and 2099-01-01, one has reached the date on 2024-01-01.
\<close>

lemma lifecycleByCategory_router_scenario:
  "lifecycleByCategory ref_platform 1704067200000
     [[((str ''category''), JStr (str ''Router'')), ((str ''end_of_sale''), JStr (str ''2020-01-01''))],
      [((str ''category''), JStr (str ''Router'')), ((str ''end_of_sale''), JStr (str ''2099-01-01''))]] =
   [((str ''Router''), \<lparr> totalQty = 0, endOfSale = 1, endOfSWVuln = 0, lastDaySupport = 0,
                   total = 2 \<rparr>)]"
  by code_simp

section \<open>Breakdowns\<close>

text \<open>
  When no group value of the items names a property of \<open>Object.prototype\<close>, the
  counts of a breakdown add up to the number of items and its quantities to the total
  quantity.
\<close>

lemma sum_update_new:
  fixes f :: "'b \<Rightarrow> int"
  shows "map_of bd k = None \<Longrightarrow>
    sum_list (map (\<lambda>(g, e). f e) (AList.update k e' bd)) = sum_list (map (\<lambda>(g, e). f e) bd) + f e'"
  by (induction bd) (auto split: if_splits)

lemma sum_update_old:
  fixes f :: "'b \<Rightarrow> int"
  shows "map_of bd k = Some e0 \<Longrightarrow>
    sum_list (map (\<lambda>(g, e). f e) (AList.update k e' bd)) =
      sum_list (map (\<lambda>(g, e). f e) bd) - f e0 + f e'"
  by (induction bd) (auto split: if_splits)

lemma add_item_count: "count (add_item pf item e) = count e + 1"
  by (simp add: add_item_def Let_def)

lemma add_item_quantity:
  "quantity (add_item pf item e) = quantity e + parseInt_or_0 pf (get_prop item (str ''qty''))"
  by (simp add: add_item_def Let_def)

lemma group_add_count:
  assumes "ToString pf g \<notin> set Object_prototype_names"
  shows "sum_list (map (\<lambda>(g, e). count e) (group_add pf bd g item)) =
           sum_list (map (\<lambda>(g, e). count e) bd) + 1"
proof (cases "map_of bd (ToString pf g)")
  case None
  with assms show ?thesis
    by (simp add: group_add_def Let_def sum_update_new add_item_count new_entry_def)
next
  case (Some e0)
  then show ?thesis
    by (simp add: group_add_def Let_def sum_update_old add_item_count)
qed

lemma group_add_quantity:
  assumes "ToString pf g \<notin> set Object_prototype_names"
  shows "sum_list (map (\<lambda>(g, e). quantity e) (group_add pf bd g item)) =
           sum_list (map (\<lambda>(g, e). quantity e) bd) + parseInt_or_0 pf (get_prop item (str ''qty''))"
proof (cases "map_of bd (ToString pf g)")
  case None
  with assms show ?thesis
    by (simp add: group_add_def Let_def sum_update_new add_item_quantity new_entry_def)
next
  case (Some e0)
  then show ?thesis
    by (simp add: group_add_def Let_def sum_update_old add_item_quantity)
qed

lemma totalQuantity_foldl:
  "foldl (\<lambda>sum item. sum + parseInt_or_0 pf (get_prop item (str ''qty''))) a items =
     a + totalQuantity pf items"
proof (induction items arbitrary: a)
  case Nil
  then show ?case by (simp add: totalQuantity_def)
next
  case (Cons item items)
  have "totalQuantity pf (item # items) =
          parseInt_or_0 pf (get_prop item (str ''qty'')) + totalQuantity pf items"
    using Cons[of "0 + parseInt_or_0 pf (get_prop item (str ''qty''))"]
    by (simp add: totalQuantity_def)
  then show ?case using Cons[of "a + parseInt_or_0 pf (get_prop item (str ''qty''))"] by simp
qed

lemma totalQuantity_Cons:
  "totalQuantity pf (item # items) =
     parseInt_or_0 pf (get_prop item (str ''qty'')) + totalQuantity pf items"
  using totalQuantity_foldl[of pf "parseInt_or_0 pf (get_prop item (str ''qty''))" items]
  by (simp add: totalQuantity_def)

lemma group_by_conservation:
  assumes "\<forall>item \<in> set items. ToString pf (grp item) \<notin> set Object_prototype_names"
  shows "sum_list (map (\<lambda>(g, e). count e)
           (foldl (\<lambda>breakdown item. group_add pf breakdown (grp item) item) bd items)) =
         sum_list (map (\<lambda>(g, e). count e) bd) + int (length items) \<and>
         sum_list (map (\<lambda>(g, e). quantity e)
           (foldl (\<lambda>breakdown item. group_add pf breakdown (grp item) item) bd items)) =
         sum_list (map (\<lambda>(g, e). quantity e) bd) + totalQuantity pf items"
  using assms
proof (induction items arbitrary: bd)
  case Nil
  then show ?case by (simp add: totalQuantity_def)
next
  case (Cons item items)
  then have g: "ToString pf (grp item) \<notin> set Object_prototype_names"
    and rest: "\<forall>item \<in> set items. ToString pf (grp item) \<notin> set Object_prototype_names"
    by simp_all
  show ?case
    using Cons.IH[OF rest, of "group_add pf bd (grp item) item"]
    by (simp add: group_add_count[OF g] group_add_quantity[OF g] totalQuantity_Cons)
qed

lemma breakdown_conservation:
  assumes "\<forall>item \<in> set items. ToString pf (mfg_group item) \<notin> set Object_prototype_names"
    and "\<forall>item \<in> set items. ToString pf (cat_group item) \<notin> set Object_prototype_names"
  shows "sum_list (map (\<lambda>(g, e). count e) (manufacturerBreakdown pf items)) = int (length items)"
    and "sum_list (map (\<lambda>(g, e). quantity e) (manufacturerBreakdown pf items)) = totalQuantity pf items"
    and "sum_list (map (\<lambda>(g, e). count e) (categoryBreakdown pf items)) = int (length items)"
    and "sum_list (map (\<lambda>(g, e). quantity e) (categoryBreakdown pf items)) = totalQuantity pf items"
  using group_by_conservation[OF assms(1), of "[]"] group_by_conservation[OF assms(2), of "[]"]
  by (simp_all add: manufacturerBreakdown_def categoryBreakdown_def)

text \<open>
  C8. In each breakdown the counts are claimed to add up to the number of records and the
  quantities to the total quantity. Take one record of quantity 2 whose manufacturer and
  category are both the word \<open>constructor\<close>. Both breakdowns are plain objects, on which
  \<open>constructor\<close> reads as the inherited constructor function: the test
  \<open>!breakdown[key]\<close> fails, no entry is created, and both breakdowns stay empty. Their
  counts and quantities add up to 0, against one record and a total quantity of 2.
\<close>

theorem breakdowns_drop_inherited_name:
  "(let items = [[((str ''mfg''), JStr (str ''constructor'')), ((str ''category''), JStr (str ''constructor'')),
                  ((str ''qty''), JNum (Fin 2)), ((str ''support_coverage''), JStr (str ''Active''))]]
    in categoryBreakdown ref_platform items = [] \<and>
       manufacturerBreakdown ref_platform items = [] \<and>
       sum_list (map (\<lambda>(g, e). count e) (categoryBreakdown ref_platform items)) = 0 \<and>
       sum_list (map (\<lambda>(g, e). quantity e) (manufacturerBreakdown ref_platform items)) = 0 \<and>
       int (length items) = 1 \<and>
       totalQuantity ref_platform items = 2)"
  by code_simp

theorem breakdowns_drop_inherited_name_witness:
  "categoryBreakdown ref_platform
     [[((str ''mfg''), JStr (str ''constructor'')), ((str ''category''), JStr (str ''constructor'')),
       ((str ''qty''), JNum (Fin 2)), ((str ''support_coverage''), JStr (str ''Active''))]] = []"
  using breakdowns_drop_inherited_name by (simp add: Let_def)


section \<open>Pagination of the results\<close>










text \<open>
  An id that names no stored job but a member of \<open>Object.prototype\<close> is outside the
  claim: the operation throws on it.
\<close>

lemma getResults_inherited_name:
  "getResults pf Map.empty (str ''constructor'') query_limit query_offset = Throws"
  by (simp add: getResults_def Object_prototype_names_def)


end
